theory Spec2Isabelle
  imports Main "HOL-Library.Char_ord" "HOL-Library.List_Lexorder"
    "HOL-Library.Product_Lexorder" "HOL-Library.Multiset"
begin

section \<open>Python values, exceptions and string primitives\<close>

text \<open>
  The type library of \<^verbatim>\<open>synapse/lib/types.py\<close> normalises dynamically typed Python
  values. The values that the normalisers inspect are modelled by \<open>pyval\<close>: \<^verbatim>\<open>None\<close>,
  booleans, (unbounded) integers, text, lists and tuples. Text is a list of characters;
  case folding, white space and word characters follow Python on ASCII, and a character
  outside ASCII is neither a letter nor white space. Floating point values and
  dictionaries are not among the modelled inputs.
\<close>

datatype pyval =
    PNone
  | PBool bool
  | PInt int
  | PStr string
  | PList "pyval list"
  | PTuple "pyval list"

text \<open>
  Exceptions are values. \<open>BadTypeValu\<close> carries the type name and the offending value
  (\<^verbatim>\<open>DataType._raiseBadValu\<close>), \<open>NoSuchType\<close> the name that was looked up.
  \<open>LibError\<close> stands for any exception raised inside a helper that is not part of
  \<^verbatim>\<open>types.py\<close>.
\<close>

datatype err =
    BadTypeValu string pyval
  | NoSuchType pyval
  | DupTypeName string
  | BadInfoValu string pyval
  | NoCtorOrSubof
  | NoSuchDyn pyval
  | NameError string
  | ValueError
  | TypeError
  | AttributeError
  | RecursionError
  | LibError

type_synonym info = "(string \<times> pyval) list"
type_synonym subs = "string \<rightharpoonup> pyval"
type_synonym normres = "err + (pyval \<times> subs)"

subsection \<open>Type tests and truthiness\<close>

text \<open>\<^verbatim>\<open>s_compat.isstr\<close> and \<^verbatim>\<open>s_compat.isint\<close> test the exact type of the value.\<close>

fun isstr :: "pyval \<Rightarrow> bool" where
  "isstr (PStr _) = True"
| "isstr _ = False"

fun isint :: "pyval \<Rightarrow> bool" where
  "isint (PInt _) = True"
| "isint _ = False"

text \<open>\<^verbatim>\<open>islist(x)\<close> is \<^verbatim>\<open>type(x) in (list, tuple)\<close>.\<close>

fun islist :: "pyval \<Rightarrow> bool" where
  "islist (PList _) = True"
| "islist (PTuple _) = True"
| "islist _ = False"

text \<open>Python's truth value of an object, as tested by \<^verbatim>\<open>if x:\<close> and \<^verbatim>\<open>bool(x)\<close>.\<close>

fun truthy :: "pyval \<Rightarrow> bool" where
  "truthy PNone = False"
| "truthy (PBool b) = b"
| "truthy (PInt i) = (i \<noteq> 0)"
| "truthy (PStr s) = (s \<noteq> [])"
| "truthy (PList xs) = (xs \<noteq> [])"
| "truthy (PTuple xs) = (xs \<noteq> [])"

text \<open>
  The integer behind a value in a comparison: \<^verbatim>\<open>bool\<close> is a subclass of \<^verbatim>\<open>int\<close>.
  Ordering an integer against anything else raises \<^verbatim>\<open>TypeError\<close>.
\<close>

fun as_int :: "pyval \<Rightarrow> int option" where
  "as_int (PInt i) = Some i"
| "as_int (PBool b) = Some (if b then 1 else 0)"
| "as_int _ = None"

definition py_lt :: "pyval \<Rightarrow> pyval \<Rightarrow> err + bool" where
  "py_lt a b =
     (case (as_int a, as_int b) of
        (Some i, Some j) \<Rightarrow> Inr (i < j)
      | _ \<Rightarrow> Inl TypeError)"

text \<open>
  The builtins \<^verbatim>\<open>min(a, b)\<close> and \<^verbatim>\<open>max(a, b)\<close>: the first argument is kept unless the
  second is strictly smaller (greater).
\<close>

definition py_min :: "pyval \<Rightarrow> pyval \<Rightarrow> err + pyval" where
  "py_min a b = (case py_lt b a of Inl e \<Rightarrow> Inl e | Inr lt \<Rightarrow> Inr (if lt then b else a))"

definition py_max :: "pyval \<Rightarrow> pyval \<Rightarrow> err + pyval" where
  "py_max a b = (case py_lt a b of Inl e \<Rightarrow> Inl e | Inr lt \<Rightarrow> Inr (if lt then b else a))"

subsection \<open>Text\<close>

text \<open>Lower-casing an ASCII capital sets bit 5 of its code (adds 32).\<close>

definition lower_chr :: "char \<Rightarrow> char" where
  "lower_chr c =
     (let n = (of_char c :: nat)
      in if 65 \<le> n \<and> n \<le> 90
         then (case c of Char b0 b1 b2 b3 b4 b5 b6 b7 \<Rightarrow> Char b0 b1 b2 b3 b4 True b6 b7)
         else c)"

definition py_lower :: "string \<Rightarrow> string" where
  "py_lower s = map lower_chr s"

definition isspace :: "char \<Rightarrow> bool" where
  "isspace c = (let n = (of_char c :: nat) in (9 \<le> n \<and> n \<le> 13) \<or> (28 \<le> n \<and> n \<le> 32))"

definition py_strip :: "string \<Rightarrow> string" where
  "py_strip s = rev (dropWhile isspace (rev (dropWhile isspace s)))"

text \<open>\<^verbatim>\<open>[0-9a-f]\<close> and \<^verbatim>\<open>\w\<close>.\<close>

definition ishexlow :: "char \<Rightarrow> bool" where
  "ishexlow c = (let n = (of_char c :: nat) in (48 \<le> n \<and> n \<le> 57) \<or> (97 \<le> n \<and> n \<le> 102))"

definition isword :: "char \<Rightarrow> bool" where
  "isword c =
     (let n = (of_char c :: nat)
      in (48 \<le> n \<and> n \<le> 57) \<or> (65 \<le> n \<and> n \<le> 90) \<or> (97 \<le> n \<and> n \<le> 122) \<or> n = 95)"

text \<open>
  \<^verbatim>\<open>text.split(sep, maxsplit)\<close> for a non-empty separator. The limit is \<open>None\<close> when
  Python's \<^verbatim>\<open>maxsplit\<close> is negative or absent (no limit). \<open>acc\<close> is the piece being read.
\<close>

fun split_from :: "string \<Rightarrow> nat option \<Rightarrow> string \<Rightarrow> string \<Rightarrow> string list" where
  "split_from sep lim acc [] = [acc]"
| "split_from sep lim acc (c # cs) =
     (if lim = Some 0 then [acc @ c # cs]
      else if take (length sep) (c # cs) = sep
        then acc # split_from sep (map_option (\<lambda>k. k - 1) lim) [] (drop (length sep - 1) cs)
        else split_from sep lim (acc @ [c]) cs)"

definition maxsplit_of :: "int \<Rightarrow> nat option" where
  "maxsplit_of k = (if k < 0 then None else Some (nat k))"

definition py_split :: "string \<Rightarrow> int \<Rightarrow> string \<Rightarrow> err + string list" where
  "py_split sep k s =
     (if sep = [] then Inl ValueError else Inr (split_from sep (maxsplit_of k) [] s))"

definition py_rsplit :: "string \<Rightarrow> int \<Rightarrow> string \<Rightarrow> err + string list" where
  "py_rsplit sep k s =
     (if sep = [] then Inl ValueError
      else Inr (map rev (rev (split_from (rev sep) (maxsplit_of k) [] (rev s)))))"

text \<open>Splitting on a single character without limit, as in \<^verbatim>\<open>text.split('|')\<close>.\<close>

definition split_chr :: "char \<Rightarrow> string \<Rightarrow> string list" where
  "split_chr c s = split_from [c] None [] s"

text \<open>\<^verbatim>\<open>sep.join(parts)\<close>: every part has to be text.\<close>

fun join_strs :: "string \<Rightarrow> string list \<Rightarrow> string" where
  "join_strs sep [] = []"
| "join_strs sep [s] = s"
| "join_strs sep (s # t # ts) = s @ sep @ join_strs sep (t # ts)"

fun strs_of :: "pyval list \<Rightarrow> string list option" where
  "strs_of [] = Some []"
| "strs_of (PStr s # vs) = map_option ((#) s) (strs_of vs)"
| "strs_of (_ # vs) = None"

definition py_join :: "pyval \<Rightarrow> pyval list \<Rightarrow> err + pyval" where
  "py_join sep parts =
     (case sep of
        PStr s \<Rightarrow> (case strs_of parts of None \<Rightarrow> Inl TypeError
                   | Some ss \<Rightarrow> Inr (PStr (join_strs s ss)))
      | _ \<Rightarrow> Inl AttributeError)"

subsection \<open>Integers as text\<close>

text \<open>
  \<^verbatim>\<open>'%d' % n\<close> and \<^verbatim>\<open>'%x' % n\<close> write an integer in base 10 and 16, with a leading
  minus sign for a negative one.
\<close>

definition digit_chr :: "nat \<Rightarrow> char" where
  "digit_chr d = ''0123456789abcdef'' ! d"

function digits_of :: "nat \<Rightarrow> nat \<Rightarrow> string" where
  "digits_of b n =
     (if b < 2 \<or> n < b then [digit_chr n] else digits_of b (n div b) @ [digit_chr (n mod b)])"
  by pat_completeness auto
termination
  by (relation "measure snd") auto

declare digits_of.simps [simp del]

definition int_str :: "nat \<Rightarrow> int \<Rightarrow> string" where
  "int_str b i = (if i < 0 then CHR ''-'' # digits_of b (nat (- i)) else digits_of b (nat i))"

text \<open>
  \<^verbatim>\<open>int(text, 0)\<close>: surrounding white space is dropped, a sign may come first, the
  prefixes \<^verbatim>\<open>0x\<close>, \<^verbatim>\<open>0o\<close> and \<^verbatim>\<open>0b\<close> select the base, and a decimal numeral has no
  leading zero unless it is zero. \<open>None\<close> is Python's \<^verbatim>\<open>ValueError\<close>. (Digit grouping
  with underscores is not modelled.)
\<close>

definition digit_val :: "char \<Rightarrow> nat option" where
  "digit_val c =
     (let n = (of_char c :: nat)
      in if 48 \<le> n \<and> n \<le> 57 then Some (n - 48)
         else if 97 \<le> n \<and> n \<le> 122 then Some (n - 87)
         else if 65 \<le> n \<and> n \<le> 90 then Some (n - 55)
         else None)"

fun digits_val :: "nat \<Rightarrow> string \<Rightarrow> nat \<Rightarrow> nat option" where
  "digits_val b [] acc = Some acc"
| "digits_val b (c # cs) acc =
     (case digit_val c of
        None \<Rightarrow> None
      | Some d \<Rightarrow> if d < b then digits_val b cs (acc * b + d) else None)"

definition parse_nat :: "nat \<Rightarrow> string \<Rightarrow> nat option" where
  "parse_nat b cs = (if cs = [] then None else digits_val b cs 0)"

definition parse_dec0 :: "string \<Rightarrow> nat option" where
  "parse_dec0 cs =
     (if take 1 cs = ''0'' \<and> (\<exists>c \<in> set cs. c \<noteq> CHR ''0'') then None else parse_nat 10 cs)"

definition parse_mag :: "string \<Rightarrow> nat option" where
  "parse_mag body =
     (case body of
        c0 # c1 # r \<Rightarrow>
          if c0 = CHR ''0'' \<and> (c1 = CHR ''x'' \<or> c1 = CHR ''X'') then parse_nat 16 r
          else if c0 = CHR ''0'' \<and> (c1 = CHR ''o'' \<or> c1 = CHR ''O'') then parse_nat 8 r
          else if c0 = CHR ''0'' \<and> (c1 = CHR ''b'' \<or> c1 = CHR ''B'') then parse_nat 2 r
          else parse_dec0 body
      | _ \<Rightarrow> parse_dec0 body)"

definition py_int0 :: "string \<Rightarrow> int option" where
  "py_int0 text =
     (let s = py_strip text;
          neg = (take 1 s = ''-'');
          body = (if take 1 s = ''-'' \<or> take 1 s = ''+'' then drop 1 s else s)
      in map_option (\<lambda>m. if neg then - int m else int m) (parse_mag body))"

section \<open>Helpers that live outside \<^verbatim>\<open>types.py\<close>\<close>

text \<open>
  \<^verbatim>\<open>types.py\<close> calls into modules whose code is not part of the sources at hand:
  \<^verbatim>\<open>synapse.common\<close> (\<^verbatim>\<open>reqStorDict\<close>, \<^verbatim>\<open>guid\<close>), \<^verbatim>\<open>synapse.lib.time\<close>,
  \<^verbatim>\<open>synapse.lib.syntax\<close>, \<^verbatim>\<open>synapse.lib.modules\<close>, and Python's \<^verbatim>\<open>re\<close> and \<^verbatim>\<open>json\<close>.
  They are parameters of the model, collected in one record; every definition below
  takes the record as its first argument and every theorem holds for all of them.

  \<^item> \<open>x_storable info\<close>: whether \<^verbatim>\<open>s_common.reqStorDict(info)\<close> returns (it raises its
    own exception otherwise, here \<open>LibError\<close>);
  \<^item> \<open>x_guid v\<close>: \<^verbatim>\<open>s_common.guid(v)\<close>, the identifier derived from a value;
  \<^item> \<open>x_newguid\<close>: what \<^verbatim>\<open>s_common.guid()\<close> returns on this call (a fresh identifier);
  \<^item> \<open>x_time_parse\<close>, \<open>x_time_repr\<close>: \<^verbatim>\<open>s_time.parse\<close> (text to epoch milliseconds) and
    \<^verbatim>\<open>s_time.repr\<close> (a value to text);
  \<^item> \<open>x_parse_list\<close>: \<^verbatim>\<open>s_syntax.parse_list\<close>, returning the values and the offset;
  \<^item> \<open>x_json_dumps v\<close>: \<^verbatim>\<open>json.dumps(v, separators=(',', ':'))\<close>;
    \<open>x_json_recode t\<close>: \<^verbatim>\<open>json.dumps(json.loads(t), separators=(',', ':'))\<close>, \<open>None\<close>
    when either call raises;
  \<^item> \<open>x_re_valid p\<close>: whether \<^verbatim>\<open>re.compile(p)\<close> returns (it raises \<^verbatim>\<open>re.error\<close> or
    \<^verbatim>\<open>TypeError\<close> otherwise, here \<open>LibError\<close>); \<open>x_re_match p t\<close>: whether \<^verbatim>\<open>re.compile(p).match(t)\<close> finds a match; \<open>x_re_sub p t\<close>:
    \<^verbatim>\<open>re.compile(p).sub('', t)\<close>;
  \<^item> \<open>x_format f v\<close>: \<^verbatim>\<open>f % v\<close> for a format other than \<^verbatim>\<open>'%d'\<close> and \<^verbatim>\<open>'%x'\<close>;
  \<^item> \<open>x_base_types\<close>: the type definitions of the models that
    \<^verbatim>\<open>s_modules.call_ctor('getBaseModels')\<close> supplies, in order.
\<close>

record ext =
  x_storable :: "info \<Rightarrow> bool"
  x_guid :: "pyval \<Rightarrow> string"
  x_newguid :: string
  x_time_parse :: "string \<Rightarrow> err + int"
  x_time_repr :: "pyval \<Rightarrow> err + string"
  x_parse_list :: "string \<Rightarrow> err + (pyval list \<times> nat)"
  x_json_dumps :: "pyval \<Rightarrow> err + string"
  x_json_recode :: "string \<Rightarrow> string option"
  x_re_valid :: "pyval \<Rightarrow> bool"
  x_re_match :: "pyval \<Rightarrow> string \<Rightarrow> bool"
  x_re_sub :: "pyval \<Rightarrow> string \<Rightarrow> string"
  x_format :: "pyval \<Rightarrow> pyval \<Rightarrow> err + pyval"
  x_base_types :: "(string \<times> info) list"

text \<open>The \<^verbatim>\<open>%\<close> operator with a format on the left.\<close>

definition py_format :: "ext \<Rightarrow> pyval \<Rightarrow> pyval \<Rightarrow> err + pyval" where
  "py_format x f v =
     (if f = PStr ''%d'' \<or> f = PStr ''%x''
      then (case as_int v of
              None \<Rightarrow> Inl TypeError
            | Some i \<Rightarrow> Inr (PStr (int_str (if f = PStr ''%d'' then 10 else 16) i)))
      else x_format x f v)"

subsection \<open>The two patterns compiled at module level\<close>

text \<open>
  \<^verbatim>\<open>guidre = re.compile('^[0-9a-f]{32}$')\<close> and
  \<^verbatim>\<open>tagre = re.compile(r'^([\w]+\.)*[\w]+$')\<close>. In Python, \<^verbatim>\<open>$\<close> also matches just before
  a newline that ends the text.
\<close>

definition chop_nl :: "string \<Rightarrow> string" where
  "chop_nl s = (if s \<noteq> [] \<and> last s = CHR 0x0A then butlast s else s)"

definition isguid :: "string \<Rightarrow> bool" where
  "isguid text = (length (chop_nl text) = 32 \<and> list_all ishexlow (chop_nl text))"

definition tagre_match :: "string \<Rightarrow> bool" where
  "tagre_match text =
     list_all (\<lambda>seg. seg \<noteq> [] \<and> list_all isword seg) (split_chr CHR ''.'' (chop_nl text))"

section \<open>Type instances and their constructors\<close>

text \<open>
  The keyword arguments \<^verbatim>\<open>**info\<close> of a type definition are an association list with
  distinct keys. \<^verbatim>\<open>info.get(k)\<close> is \<^verbatim>\<open>None\<close> for a missing key.
\<close>

definition info_get :: "info \<Rightarrow> string \<Rightarrow> pyval" where
  "info_get info k = (case map_of info k of None \<Rightarrow> PNone | Some v \<Rightarrow> v)"

definition info_get_d :: "info \<Rightarrow> string \<Rightarrow> pyval \<Rightarrow> pyval" where
  "info_get_d info k d = (case map_of info k of None \<Rightarrow> d | Some v \<Rightarrow> v)"

datatype minmax = MMin | MMax

record strtype =
  st_regex :: pyval
  st_envals :: "string list option"
  st_restrip :: pyval
  st_frobintfmt :: pyval
  st_strip :: pyval
  st_nullval :: pyval

record inttype =
  it_fmt :: pyval
  it_minval :: pyval
  it_maxval :: pyval
  it_ismin :: pyval
  it_ismax :: pyval
  it_minmax :: "minmax option"

record timetype =
  tt_ismin :: pyval
  tt_ismax :: pyval
  tt_minmax :: "minmax option"

record comptype =
  ct_fields :: "(string \<times> string) list"
  ct_optfields :: "(string \<times> string) list"
  ct_fsize :: nat

record xreftype =
  xt_sorc_type :: pyval
  xt_sorc_name :: pyval

text \<open>
  \<^verbatim>\<open>MultiFieldType.fields\<close> is \<^verbatim>\<open>None\<close> until \<^verbatim>\<open>_get_fields\<close> has run, and then the list
  of \<^verbatim>\<open>(name, item)\<close> it built, where \<^verbatim>\<open>item\<close> is the instance that
  \<^verbatim>\<open>getTypeInst\<close> returned at that moment or \<^verbatim>\<open>None\<close>. An instance is referred to by
  the name it is registered under (a name is registered once and never removed).
\<close>

type_synonym fieldcache = "(string \<times> string option) list option"

record seprtype =
  sp_fields :: fieldcache
  sp_sepr :: pyval
  sp_reverse :: pyval

datatype tobj =
    DataTypeO
  | GuidTypeO pyval
  | StrTypeO strtype
  | JsonTypeO
  | IntTypeO inttype
  | MultiFieldTypeO fieldcache
  | CompTypeO comptype
  | XrefTypeO xreftype
  | TimeTypeO timetype
  | SeprTypeO seprtype
  | BoolTypeO
  | TagTypeO

datatype tcls =
    DataTypeC | GuidTypeC | StrTypeC | JsonTypeC | IntTypeC | MultiFieldTypeC
  | CompTypeC | XrefTypeC | TimeTypeC | SeprTypeC | BoolTypeC | TagTypeC

fun cls_of :: "tobj \<Rightarrow> tcls" where
  "cls_of DataTypeO = DataTypeC"
| "cls_of (GuidTypeO _) = GuidTypeC"
| "cls_of (StrTypeO _) = StrTypeC"
| "cls_of JsonTypeO = JsonTypeC"
| "cls_of (IntTypeO _) = IntTypeC"
| "cls_of (MultiFieldTypeO _) = MultiFieldTypeC"
| "cls_of (CompTypeO _) = CompTypeC"
| "cls_of (XrefTypeO _) = XrefTypeC"
| "cls_of (TimeTypeO _) = TimeTypeC"
| "cls_of (SeprTypeO _) = SeprTypeC"
| "cls_of BoolTypeO = BoolTypeC"
| "cls_of TagTypeO = TagTypeC"

text \<open>An instance: \<^verbatim>\<open>self.name\<close>, \<^verbatim>\<open>self.info\<close> and the attributes its class sets.\<close>

record inst =
  i_name :: string
  i_info :: info
  i_obj :: tobj

subsection \<open>\<^verbatim>\<open>__init__\<close> of each class\<close>

text \<open>The cached \<^verbatim>\<open>min\<close> or \<^verbatim>\<open>max\<close> of \<^verbatim>\<open>IntType\<close> and \<^verbatim>\<open>TimeType\<close>.\<close>

definition minmax_of :: "pyval \<Rightarrow> pyval \<Rightarrow> minmax option" where
  "minmax_of ismin ismax =
     (if truthy ismin then Some MMin else if truthy ismax then Some MMax else None)"

definition StrType_init :: "ext \<Rightarrow> info \<Rightarrow> err + tobj" where
  "StrType_init x info =
     (let enumstr = info_get info ''enums'';
          regex = info_get info ''regex'';
          restrip = info_get info ''restrip''
      in case (if enumstr = PNone then Inr None
               else case enumstr of
                      PStr e \<Rightarrow> Inr (Some (split_chr CHR '','' e))
                    | _ \<Rightarrow> Inl AttributeError) of
           Inl e \<Rightarrow> Inl e
         | Inr envals \<Rightarrow>
             if regex \<noteq> PNone \<and> \<not> x_re_valid x regex then Inl LibError
             else if restrip \<noteq> PNone \<and> \<not> x_re_valid x restrip then Inl LibError
             else Inr (StrTypeO \<lparr> st_regex = regex, st_envals = envals,
                         st_restrip = restrip,
                         st_frobintfmt = info_get info ''frob_int_fmt'',
                         st_strip = info_get_d info ''strip'' (PInt 0),
                         st_nullval = info_get info ''nullval'' \<rparr>))"

definition IntType_init :: "info \<Rightarrow> tobj" where
  "IntType_init info =
     (let ismin = info_get_d info ''ismin'' (PBool False);
          ismax = info_get_d info ''ismax'' (PBool False)
      in IntTypeO \<lparr> it_fmt = info_get_d info ''fmt'' (PStr ''%d''),
                    it_minval = info_get info ''min'',
                    it_maxval = info_get info ''max'',
                    it_ismin = ismin, it_ismax = ismax,
                    it_minmax = minmax_of ismin ismax \<rparr>)"

definition TimeType_init :: "info \<Rightarrow> tobj" where
  "TimeType_init info =
     (let ismin = info_get_d info ''ismin'' (PBool False);
          ismax = info_get_d info ''ismax'' (PBool False)
      in TimeTypeO \<lparr> tt_ismin = ismin, tt_ismax = ismax, tt_minmax = minmax_of ismin ismax \<rparr>)"

text \<open>
  \<^verbatim>\<open>_splitpairs(text, sep0, sep1)\<close>: the parts between \<^verbatim>\<open>sep0\<close>, each of which has to
  split into exactly two at \<^verbatim>\<open>sep1\<close> (the tuple assignment raises \<^verbatim>\<open>ValueError\<close>
  otherwise).
\<close>

fun pairs_of :: "char \<Rightarrow> string list \<Rightarrow> err + (string \<times> string) list" where
  "pairs_of sep1 [] = Inr []"
| "pairs_of sep1 (part # ps) =
     (case split_chr sep1 part of
        [k, v] \<Rightarrow> (case pairs_of sep1 ps of
                     Inl e \<Rightarrow> Inl e
                   | Inr r \<Rightarrow> Inr ((py_strip k, py_strip v) # r))
      | _ \<Rightarrow> Inl ValueError)"

definition splitpairs :: "string \<Rightarrow> char \<Rightarrow> char \<Rightarrow> err + (string \<times> string) list" where
  "splitpairs text sep0 sep1 = pairs_of sep1 (split_chr sep0 text)"

definition CompType_init :: "info \<Rightarrow> err + tobj" where
  "CompType_init info =
     (let fstr = info_get info ''fields''; ostr = info_get info ''optfields''
      in case (if truthy fstr
               then (case fstr of
                       PStr t \<Rightarrow> if CHR ''='' \<in> set t then splitpairs t CHR '','' CHR ''=''
                                 else splitpairs t CHR ''|'' CHR '',''
                     | _ \<Rightarrow> Inl AttributeError)
               else Inr []) of
           Inl e \<Rightarrow> Inl e
         | Inr flds \<Rightarrow>
             (case (if truthy ostr
                    then (case ostr of
                            PStr t \<Rightarrow> map_sum id sort (splitpairs t CHR '','' CHR ''='')
                          | _ \<Rightarrow> Inl AttributeError)
                    else Inr []) of
                Inl e \<Rightarrow> Inl e
              | Inr oflds \<Rightarrow>
                  Inr (CompTypeO \<lparr> ct_fields = flds, ct_optfields = oflds,
                                   ct_fsize = length flds \<rparr>)))"

definition XrefType_init :: "info \<Rightarrow> err + tobj" where
  "XrefType_init info =
     (let sorc = info_get info ''source''
      in if sorc = PNone
         then Inr (XrefTypeO \<lparr> xt_sorc_type = PNone, xt_sorc_name = PNone \<rparr>)
         else (case sorc of
                 PStr t \<Rightarrow>
                   (case split_chr CHR '','' t of
                      [p0, p1] \<Rightarrow>
                        Inr (XrefTypeO \<lparr> xt_sorc_type = PStr p1, xt_sorc_name = PStr p0 \<rparr>)
                    | _ \<Rightarrow> Inl (BadInfoValu ''source'' sorc))
               | _ \<Rightarrow> Inl AttributeError))"

definition SeprType_init :: "info \<Rightarrow> tobj" where
  "SeprType_init info =
     SeprTypeO \<lparr> sp_fields = None, sp_sepr = info_get_d info ''sep'' (PStr '',''),
                 sp_reverse = info_get_d info ''reverse'' (PInt 0) \<rparr>"

text \<open>
  Calling a class: \<^verbatim>\<open>DataType.__init__\<close> runs first in every constructor and ends with
  \<^verbatim>\<open>s_common.reqStorDict(info)\<close>; the attributes of the subclass follow.
\<close>

definition class_init :: "ext \<Rightarrow> tcls \<Rightarrow> info \<Rightarrow> err + tobj" where
  "class_init x cls info =
     (case cls of
        DataTypeC \<Rightarrow> Inr DataTypeO
      | GuidTypeC \<Rightarrow> Inr (GuidTypeO (info_get info ''alias''))
      | StrTypeC \<Rightarrow> StrType_init x info
      | JsonTypeC \<Rightarrow> Inr JsonTypeO
      | IntTypeC \<Rightarrow> Inr (IntType_init info)
      | MultiFieldTypeC \<Rightarrow> Inr (MultiFieldTypeO None)
      | CompTypeC \<Rightarrow> CompType_init info
      | XrefTypeC \<Rightarrow> XrefType_init info
      | TimeTypeC \<Rightarrow> Inr (TimeType_init info)
      | SeprTypeC \<Rightarrow> Inr (SeprType_init info)
      | BoolTypeC \<Rightarrow> Inr BoolTypeO
      | TagTypeC \<Rightarrow> Inr TagTypeO)"

definition construct :: "ext \<Rightarrow> tcls \<Rightarrow> string \<Rightarrow> info \<Rightarrow> err + inst" where
  "construct x cls name info =
     (if \<not> x_storable x info then Inl LibError
      else (case class_init x cls info of
              Inl e \<Rightarrow> Inl e
            | Inr ob \<Rightarrow> Inr \<lparr> i_name = name, i_info = info, i_obj = ob \<rparr>))"

text \<open>
  \<^verbatim>\<open>DataType.extend\<close>: the keys of the parent that the child does not set are added to
  the child's info (\<^verbatim>\<open>info.setdefault(k, v)\<close>), and the parent's class is called.
\<close>

definition info_extend :: "info \<Rightarrow> info \<Rightarrow> info" where
  "info_extend info parent = info @ filter (\<lambda>(k, v). map_of info k = None) parent"

definition DataType_extend :: "ext \<Rightarrow> inst \<Rightarrow> string \<Rightarrow> info \<Rightarrow> err + inst" where
  "DataType_extend x self name info =
     construct x (cls_of (i_obj self)) name (info_extend info (i_info self))"

text \<open>
  \<^verbatim>\<open>s_dyndeps.tryDynFunc(ctor, tlib, name, **info)\<close> calls the object that the dotted
  path \<^verbatim>\<open>ctor\<close> names. The model resolves the classes of \<^verbatim>\<open>types.py\<close>; any other path
  raises (\<^verbatim>\<open>NoSuchDyn\<close>). \<open>cpath cls\<close> is the path \<^verbatim>\<open>'synapse.lib.types.<cls>'\<close>.
\<close>

definition cpath :: "string \<Rightarrow> pyval" where
  "cpath cls = PStr (''synapse.lib.types.'' @ cls)"

definition ctor_class :: "pyval \<Rightarrow> tcls option" where
  "ctor_class ctor =
     map_of [(cpath ''DataType'', DataTypeC),
             (cpath ''GuidType'', GuidTypeC),
             (cpath ''StrType'', StrTypeC),
             (cpath ''JsonType'', JsonTypeC),
             (cpath ''IntType'', IntTypeC),
             (cpath ''MultiFieldType'', MultiFieldTypeC),
             (cpath ''CompType'', CompTypeC),
             (cpath ''XrefType'', XrefTypeC),
             (cpath ''TimeType'', TimeTypeC),
             (cpath ''SeprType'', SeprTypeC),
             (cpath ''BoolType'', BoolTypeC),
             (cpath ''TagType'', TagTypeC)] ctor"

definition tryDynFunc :: "ext \<Rightarrow> pyval \<Rightarrow> string \<Rightarrow> info \<Rightarrow> err + inst" where
  "tryDynFunc x ctor name info =
     (case ctor_class ctor of
        None \<Rightarrow> Inl (NoSuchDyn ctor)
      | Some cls \<Rightarrow> construct x cls name info)"

section \<open>Normalisation\<close>

text \<open>\<^verbatim>\<open>self._raiseBadValu(valu)\<close>.\<close>

definition bad :: "string \<Rightarrow> pyval \<Rightarrow> normres" where
  "bad name valu = Inl (BadTypeValu name valu)"

text \<open>
  \<^verbatim>\<open>TypeLib.reqDataType\<close> on the dictionary \<^verbatim>\<open>types\<close>, whose keys are the registered
  names. A list cannot be a dictionary key (\<^verbatim>\<open>TypeError\<close>).
\<close>

fun hashable :: "pyval \<Rightarrow> bool" where
  "hashable (PList _) = False"
| "hashable (PTuple xs) = list_all hashable xs"
| "hashable _ = True"

definition reqDataType :: "(string \<rightharpoonup> inst) \<Rightarrow> pyval \<Rightarrow> err + inst" where
  "reqDataType ts name =
     (if \<not> hashable name then Inl TypeError
      else case name of
             PStr n \<Rightarrow> (case ts n of None \<Rightarrow> Inl (NoSuchType name) | Some i \<Rightarrow> Inr i)
           | _ \<Rightarrow> Inl (NoSuchType name))"

text \<open>
  \<^verbatim>\<open>subs[name] = norm\<close> followed by \<^verbatim>\<open>subs[name + ':' + subkey] = subval\<close> for every item of
  the field's own sub-properties.
\<close>

definition sub_prefix :: "string \<Rightarrow> subs \<Rightarrow> subs" where
  "sub_prefix name ssubs =
     (\<lambda>k. if take (length name + 1) k = name @ '':'' then ssubs (drop (length name + 1) k)
          else None)"

definition add_subs :: "subs \<Rightarrow> string \<Rightarrow> pyval \<Rightarrow> subs \<Rightarrow> subs" where
  "add_subs sb name norm ssubs = (sb(name \<mapsto> norm)) ++ sub_prefix name ssubs"

subsection \<open>Leaf types\<close>

text \<open>
  \<^verbatim>\<open>GuidType.norm\<close>. The resolver syntax \<^verbatim>\<open>$alias\<close> needs \<^verbatim>\<open>tlib.getTufoByProp\<close>, which a
  \<^verbatim>\<open>TypeLib\<close> does not have: with an alias configured or not, the value is rejected.
\<close>

definition GuidType_norm :: "ext \<Rightarrow> string \<Rightarrow> pyval \<Rightarrow> pyval \<Rightarrow> normres" where
  "GuidType_norm x name alias valu =
     (case valu of
        PStr t \<Rightarrow>
          if length t < 1 then bad name valu
          else if t = ''*'' then Inr (PStr (x_newguid x), Map.empty)
          else if hd t \<noteq> CHR ''$''
            then (let retn = filter (\<lambda>c. c \<noteq> CHR ''-'') (py_lower t)
                  in if \<not> isguid retn then bad name valu else Inr (PStr retn, Map.empty))
            else bad name valu
      | _ \<Rightarrow> bad name valu)"

definition StrType_norm :: "ext \<Rightarrow> string \<Rightarrow> info \<Rightarrow> strtype \<Rightarrow> pyval \<Rightarrow> normres" where
  "StrType_norm x name info a valu =
     (case (if truthy (st_frobintfmt a) \<and> isint valu
            then py_format x (st_frobintfmt a) valu else Inr valu) of
        Inl e \<Rightarrow> Inl e
      | Inr v1 \<Rightarrow>
          (case v1 of
             PStr t0 \<Rightarrow>
               (let t1 = (if truthy (info_get info ''lower'') then py_lower t0 else t0)
                in if PStr t1 = st_nullval a then Inr (PStr t1, Map.empty)
                   else
                     (let t2 = (if st_restrip a \<noteq> PNone then x_re_sub x (st_restrip a) t1
                                else t1);
                          t3 = (if truthy (st_strip a) then py_strip t2 else t2)
                      in if (case st_envals a of None \<Rightarrow> False | Some es \<Rightarrow> t3 \<notin> set es)
                         then bad name (PStr t3)
                         else if st_regex a \<noteq> PNone \<and> \<not> x_re_match x (st_regex a) t3
                         then bad name (PStr t3)
                         else Inr (PStr t3, Map.empty)))
           | _ \<Rightarrow> bad name v1))"

definition JsonType_norm :: "ext \<Rightarrow> string \<Rightarrow> pyval \<Rightarrow> normres" where
  "JsonType_norm x name valu =
     (case valu of
        PStr t \<Rightarrow> (case x_json_recode x t of
                     None \<Rightarrow> bad name valu
                   | Some r \<Rightarrow> Inr (PStr r, Map.empty))
      | _ \<Rightarrow> (case x_json_dumps x valu of
                Inl e \<Rightarrow> Inl e
              | Inr r \<Rightarrow> Inr (PStr r, Map.empty)))"

text \<open>\<^verbatim>\<open>if oldval is not None and self.minmax: valu = self.minmax(valu, oldval)\<close>.\<close>

definition accumulate :: "minmax option \<Rightarrow> pyval \<Rightarrow> pyval \<Rightarrow> err + pyval" where
  "accumulate mm valu oldval =
     (if oldval = PNone then Inr valu
      else case mm of
             None \<Rightarrow> Inr valu
           | Some MMin \<Rightarrow> py_min valu oldval
           | Some MMax \<Rightarrow> py_max valu oldval)"

definition IntType_norm :: "string \<Rightarrow> inttype \<Rightarrow> pyval \<Rightarrow> pyval \<Rightarrow> normres" where
  "IntType_norm name a valu oldval =
     (case (case valu of
              PStr t \<Rightarrow> (case py_int0 t of
                           None \<Rightarrow> Inl (BadTypeValu name valu)
                         | Some i \<Rightarrow> Inr (PInt i))
            | _ \<Rightarrow> Inr valu) of
        Inl e \<Rightarrow> Inl e
      | Inr v1 \<Rightarrow>
          if \<not> isint v1 then bad name v1
          else
            (case accumulate (it_minmax a) v1 oldval of
               Inl e \<Rightarrow> Inl e
             | Inr v2 \<Rightarrow>
                 (case (if it_minval a \<noteq> PNone then py_lt v2 (it_minval a) else Inr False) of
                    Inl e \<Rightarrow> Inl e
                  | Inr True \<Rightarrow> bad name v2
                  | Inr False \<Rightarrow>
                      (case (if it_maxval a \<noteq> PNone then py_lt (it_maxval a) v2
                             else Inr False) of
                         Inl e \<Rightarrow> Inl e
                       | Inr True \<Rightarrow> bad name v2
                       | Inr False \<Rightarrow> Inr (v2, Map.empty)))))"

definition TimeType_norm :: "ext \<Rightarrow> timetype \<Rightarrow> pyval \<Rightarrow> pyval \<Rightarrow> normres" where
  "TimeType_norm x a valu oldval =
     (case (case valu of
              PStr t \<Rightarrow> (case x_time_parse x t of Inl e \<Rightarrow> Inl e | Inr ms \<Rightarrow> Inr (PInt ms))
            | _ \<Rightarrow> Inr valu) of
        Inl e \<Rightarrow> Inl e
      | Inr v1 \<Rightarrow>
          (case accumulate (tt_minmax a) v1 oldval of
             Inl e \<Rightarrow> Inl e
           | Inr v2 \<Rightarrow> Inr (v2, Map.empty)))"

definition BoolType_norm :: "string \<Rightarrow> pyval \<Rightarrow> normres" where
  "BoolType_norm name valu =
     (case valu of
        PStr t \<Rightarrow>
          (let l = py_lower t
           in if l \<in> set [''true'', ''t'', ''y'', ''yes'', ''1'', ''on'']
              then Inr (PInt 1, Map.empty)
              else if l \<in> set [''false'', ''f'', ''n'', ''no'', ''0'', ''off'']
              then Inr (PInt 0, Map.empty)
              else bad name (PStr l))
      | _ \<Rightarrow> Inr (PInt (if truthy valu then 1 else 0), Map.empty))"

text \<open>
  \<^verbatim>\<open>TagType.norm\<close>. \<open>gtn\<close> is \<^verbatim>\<open>self.tlib.getTypeNorm\<close>. The builtins \<^verbatim>\<open>min\<close> and \<^verbatim>\<open>max\<close> of
  a list start with its first element and compare the others against it in order.
\<close>

fun norm_all :: "(pyval \<Rightarrow> pyval \<Rightarrow> normres) \<Rightarrow> pyval \<Rightarrow> string list \<Rightarrow> err + pyval list" where
  "norm_all gtn tname [] = Inr []"
| "norm_all gtn tname (s # ss) =
     (case gtn tname (PStr s) of
        Inl e \<Rightarrow> Inl e
      | Inr (v, _) \<Rightarrow> (case norm_all gtn tname ss of
                        Inl e \<Rightarrow> Inl e
                      | Inr vs \<Rightarrow> Inr (v # vs)))"

fun fold_pick :: "(pyval \<Rightarrow> pyval \<Rightarrow> err + pyval) \<Rightarrow> pyval \<Rightarrow> pyval list \<Rightarrow> err + pyval" where
  "fold_pick pick acc [] = Inr acc"
| "fold_pick pick acc (t # ts) =
     (case pick acc t of Inl e \<Rightarrow> Inl e | Inr a \<Rightarrow> fold_pick pick a ts)"

definition py_min_list :: "pyval list \<Rightarrow> err + pyval" where
  "py_min_list ts = (case ts of [] \<Rightarrow> Inl ValueError | t # r \<Rightarrow> fold_pick py_min t r)"

definition py_max_list :: "pyval list \<Rightarrow> err + pyval" where
  "py_max_list ts = (case ts of [] \<Rightarrow> Inl ValueError | t # r \<Rightarrow> fold_pick py_max t r)"

definition tag_subs :: "(pyval \<Rightarrow> pyval \<Rightarrow> normres) \<Rightarrow> string list \<Rightarrow> err + subs" where
  "tag_subs gtn parts =
     (case parts of
        [p0, p1] \<Rightarrow>
          (case norm_all gtn (PStr ''time'') (split_chr CHR ''-'' p1) of
             Inl e \<Rightarrow> Inl e
           | Inr tims \<Rightarrow>
               (case py_min_list tims of
                  Inl e \<Rightarrow> Inl e
                | Inr tmin \<Rightarrow>
                    (case py_max_list tims of
                       Inl e \<Rightarrow> Inl e
                     | Inr tmax \<Rightarrow> Inr [''seen:min'' \<mapsto> tmin, ''seen:max'' \<mapsto> tmax])))
      | _ \<Rightarrow> Inr Map.empty)"

definition TagType_norm :: "(pyval \<Rightarrow> pyval \<Rightarrow> normres) \<Rightarrow> string \<Rightarrow> pyval \<Rightarrow> normres" where
  "TagType_norm gtn name valu =
     (case valu of
        PStr t \<Rightarrow>
          (let parts = split_from ''@'' (Some 1) [] t
           in case tag_subs gtn parts of
                Inl e \<Rightarrow> Inl e
              | Inr sb \<Rightarrow>
                  (let retn = py_lower (hd parts)
                   in if \<not> tagre_match retn then bad name valu else Inr (PStr retn, sb)))
      | _ \<Rightarrow> Inl AttributeError)"

subsection \<open>\<^verbatim>\<open>CompType\<close>\<close>

text \<open>
  \<^verbatim>\<open>for k,v in valu[self.fsize:]: opts[k] = v\<close>. An entry is unpacked into two values
  (a two-element list or tuple, or a text of two characters); the key has to be hashable.
  \<^verbatim>\<open>opts\<close> is only read at the names of the optional fields, which are text.
\<close>

fun unpack2 :: "pyval \<Rightarrow> err + (pyval \<times> pyval)" where
  "unpack2 (PList [k, v]) = Inr (k, v)"
| "unpack2 (PTuple [k, v]) = Inr (k, v)"
| "unpack2 (PStr [c, d]) = Inr (PStr [c], PStr [d])"
| "unpack2 (PList _) = Inl ValueError"
| "unpack2 (PTuple _) = Inl ValueError"
| "unpack2 (PStr _) = Inl ValueError"
| "unpack2 _ = Inl TypeError"

fun comp_opts :: "pyval list \<Rightarrow> (pyval \<rightharpoonup> pyval) \<Rightarrow> err + (pyval \<rightharpoonup> pyval)" where
  "comp_opts [] opts = Inr opts"
| "comp_opts (e # es) opts =
     (case unpack2 e of
        Inl er \<Rightarrow> Inl er
      | Inr (k, v) \<Rightarrow> if \<not> hashable k then Inl TypeError else comp_opts es (opts(k \<mapsto> v)))"

text \<open>The loop over the required fields, \<^verbatim>\<open>iterzip(vals, self.fields)\<close>.\<close>

fun comp_req ::
  "(pyval \<Rightarrow> pyval \<Rightarrow> normres) \<Rightarrow> (pyval \<times> string \<times> string) list \<Rightarrow> subs \<Rightarrow> pyval list
    \<Rightarrow> err + (subs \<times> pyval list)" where
  "comp_req gtn [] sb retn = Inr (sb, retn)"
| "comp_req gtn ((v, name, tname) # rest) sb retn =
     (case gtn (PStr tname) v of
        Inl e \<Rightarrow> Inl e
      | Inr (norm, ssubs) \<Rightarrow> comp_req gtn rest (add_subs sb name norm ssubs) (retn @ [norm]))"

text \<open>
  The loop over \<^verbatim>\<open>self.optfields\<close>: a field whose option is missing or \<^verbatim>\<open>None\<close> is
  skipped, the others add the tuple \<^verbatim>\<open>(name, norm)\<close>.
\<close>

fun comp_opt ::
  "(pyval \<Rightarrow> pyval \<Rightarrow> normres) \<Rightarrow> (pyval \<rightharpoonup> pyval) \<Rightarrow> (string \<times> string) list \<Rightarrow> subs
    \<Rightarrow> pyval list \<Rightarrow> err + (subs \<times> pyval list)" where
  "comp_opt gtn opts [] sb retn = Inr (sb, retn)"
| "comp_opt gtn opts ((name, tname) # rest) sb retn =
     (case opts (PStr name) of
        None \<Rightarrow> comp_opt gtn opts rest sb retn
      | Some v \<Rightarrow>
          if v = PNone then comp_opt gtn opts rest sb retn
          else (case gtn (PStr tname) v of
                  Inl e \<Rightarrow> Inl e
                | Inr (norm, ssubs) \<Rightarrow>
                    comp_opt gtn opts rest (add_subs sb name norm ssubs)
                      (retn @ [PTuple [PStr name, norm]])))"

text \<open>The elements of a list or tuple.\<close>

fun seq_items :: "pyval \<Rightarrow> pyval list" where
  "seq_items (PList vs) = vs"
| "seq_items (PTuple vs) = vs"
| "seq_items _ = []"

definition CompType_norm_list ::
  "ext \<Rightarrow> (pyval \<Rightarrow> pyval \<Rightarrow> normres) \<Rightarrow> string \<Rightarrow> comptype \<Rightarrow> pyval \<Rightarrow> normres" where
  "CompType_norm_list x gtn name c valu =
     (let vs = seq_items valu
      in if length vs < ct_fsize c then bad name valu
         else
           (case comp_opts (drop (ct_fsize c) vs) Map.empty of
              Inl e \<Rightarrow> Inl e
            | Inr opts \<Rightarrow>
                (case comp_req gtn (zip (take (ct_fsize c) vs) (ct_fields c)) Map.empty [] of
                   Inl e \<Rightarrow> Inl e
                 | Inr (sb, retn) \<Rightarrow>
                     (case comp_opt gtn opts (ct_optfields c) sb retn of
                        Inl e \<Rightarrow> Inl e
                      | Inr (sb', retn') \<Rightarrow> Inr (PStr (x_guid x (PList retn')), sb')))))"

definition CompType_norm_str ::
  "ext \<Rightarrow> (pyval \<Rightarrow> pyval \<Rightarrow> normres) \<Rightarrow> string \<Rightarrow> comptype \<Rightarrow> string \<Rightarrow> normres" where
  "CompType_norm_str x gtn name c text0 =
     (let text = py_strip text0
      in if text = [] then bad name (PStr text)
         else if hd text \<noteq> CHR ''('' then gtn (PStr ''guid'') (PStr text)
         else (case x_parse_list x text of
                 Inl e \<Rightarrow> Inl e
               | Inr (vals, off) \<Rightarrow>
                   if off \<noteq> length text then bad name (PStr text)
                   else CompType_norm_list x gtn name c (PList vals)))"

definition CompType_norm ::
  "ext \<Rightarrow> (pyval \<Rightarrow> pyval \<Rightarrow> normres) \<Rightarrow> string \<Rightarrow> comptype \<Rightarrow> pyval \<Rightarrow> normres" where
  "CompType_norm x gtn name c valu =
     (case valu of
        PStr t \<Rightarrow> CompType_norm_str x gtn name c t
      | _ \<Rightarrow> if \<not> islist valu then bad name valu else CompType_norm_list x gtn name c valu)"

subsection \<open>\<^verbatim>\<open>XrefType\<close>\<close>

text \<open>
  \<^verbatim>\<open>XrefType._norm_list\<close>. When the list does not have three elements the method
  evaluates \<^verbatim>\<open>self._raiseBadValu(text, ...)\<close>, and \<^verbatim>\<open>text\<close> is not a name of that scope:
  Python raises \<^verbatim>\<open>NameError\<close> before \<^verbatim>\<open>_raiseBadValu\<close> is called. The keys of the
  sub-properties are text, since both type names were found in the registry.
\<close>

definition XrefType_norm_list ::
  "ext \<Rightarrow> (pyval \<Rightarrow> pyval \<Rightarrow> normres) \<Rightarrow> xreftype \<Rightarrow> pyval list \<Rightarrow> normres" where
  "XrefType_norm_list x gtn a vs =
     (case vs of
        [valu, tstr, tval] \<Rightarrow>
          (case gtn (xt_sorc_type a) valu of
             Inl e \<Rightarrow> Inl e
           | Inr (v, vsub) \<Rightarrow>
               (case gtn tstr tval of
                  Inl e \<Rightarrow> Inl e
                | Inr (tv, tsub) \<Rightarrow>
                    (case (xt_sorc_name a, tstr) of
                       (PStr sn, PStr ts) \<Rightarrow>
                         Inr (PStr (x_guid x (PTuple [v, tstr, tv])),
                              [sn \<mapsto> v, ''xtype'' \<mapsto> tstr, (''xref:'' @ ts) \<mapsto> tv])
                     | _ \<Rightarrow> Inl TypeError)))
      | _ \<Rightarrow> Inl (NameError ''text''))"

definition XrefType_norm_str ::
  "ext \<Rightarrow> (pyval \<Rightarrow> pyval \<Rightarrow> normres) \<Rightarrow> xreftype \<Rightarrow> string \<Rightarrow> normres" where
  "XrefType_norm_str x gtn a text =
     (if length text = 32 \<and> CHR ''|'' \<notin> set text then gtn (PStr ''guid'') (PStr text)
      else XrefType_norm_list x gtn a (map PStr (split_chr CHR ''|'' text)))"

definition XrefType_norm ::
  "ext \<Rightarrow> (pyval \<Rightarrow> pyval \<Rightarrow> normres) \<Rightarrow> string \<Rightarrow> xreftype \<Rightarrow> pyval \<Rightarrow> normres" where
  "XrefType_norm x gtn name a valu =
     (case valu of
        PStr t \<Rightarrow> XrefType_norm_str x gtn a t
      | _ \<Rightarrow> if \<not> islist valu then bad name valu
             else XrefType_norm_list x gtn a (seq_items valu))"

subsection \<open>\<^verbatim>\<open>SeprType\<close>\<close>

text \<open>
  \<^verbatim>\<open>MultiFieldType._get_fields\<close>: the cached list if there is one, and otherwise the
  list built from \<^verbatim>\<open>fields=\<close> (legacy syntax) or from \<^verbatim>\<open>names=\<close> and \<^verbatim>\<open>types=\<close>, each type
  name looked up with \<^verbatim>\<open>getTypeInst\<close>. The model returns the list; it does not write the
  cache back, and the statements below hold for an instance with or without a cache.
\<close>

fun legacy_fields :: "(string \<rightharpoonup> inst) \<Rightarrow> string list \<Rightarrow> err + (string \<times> inst option) list" where
  "legacy_fields ts [] = Inr []"
| "legacy_fields ts (part # ps) =
     (case split_chr CHR '','' part of
        [fname, ftype] \<Rightarrow> (case legacy_fields ts ps of
                             Inl e \<Rightarrow> Inl e
                           | Inr r \<Rightarrow> Inr ((fname, ts ftype) # r))
      | _ \<Rightarrow> Inl ValueError)"

definition comma_list :: "pyval \<Rightarrow> err + string list" where
  "comma_list v =
     (if truthy v then (case v of PStr t \<Rightarrow> Inr (split_chr CHR '','' t) | _ \<Rightarrow> Inl AttributeError)
      else Inr [])"

definition get_fields ::
  "(string \<rightharpoonup> inst) \<Rightarrow> info \<Rightarrow> fieldcache \<Rightarrow> err + (string \<times> inst option) list" where
  "get_fields ts info cache =
     (case cache of
        Some fs \<Rightarrow> Inr (map (\<lambda>(n, r). (n, case r of None \<Rightarrow> None | Some t \<Rightarrow> ts t)) fs)
      | None \<Rightarrow>
          (let flds = info_get info ''fields''
           in if flds \<noteq> PNone
              then (if truthy flds
                    then (case flds of
                            PStr t \<Rightarrow> legacy_fields ts (split_chr CHR ''|'' t)
                          | _ \<Rightarrow> Inl AttributeError)
                    else Inr [])
              else (case comma_list (info_get info ''names'') of
                      Inl e \<Rightarrow> Inl e
                    | Inr fnames \<Rightarrow>
                        (case comma_list (info_get_d info ''types'' (PStr [])) of
                           Inl e \<Rightarrow> Inl e
                         | Inr ftypes \<Rightarrow>
                             if length fnames \<noteq> length ftypes
                             then Inl (BadInfoValu ''types'' (info_get_d info ''types'' (PStr [])))
                             else Inr (zip fnames (map ts ftypes))))))"

text \<open>
  \<^verbatim>\<open>SeprType._split_str\<close>, given the fields. The separator has to be text (splitting at
  \<^verbatim>\<open>None\<close>, Python's white space mode, is not modelled).
\<close>

definition split_str ::
  "string \<Rightarrow> seprtype \<Rightarrow> nat \<Rightarrow> string \<Rightarrow> err + string list" where
  "split_str name a nfields text =
     (case sp_sepr a of
        PStr sep \<Rightarrow>
          (case (if truthy (sp_reverse a) then py_rsplit sep (int nfields - 1) text
                 else py_split sep (int nfields - 1) text) of
             Inl e \<Rightarrow> Inl e
           | Inr parts \<Rightarrow>
               if length parts \<noteq> nfields then Inl (BadTypeValu name (PStr text))
               else Inr parts)
      | _ \<Rightarrow> Inl TypeError)"

text \<open>
  The loop of \<^verbatim>\<open>SeprType.norm\<close> over \<^verbatim>\<open>iterzip(vals, fields)\<close>. \<open>nrm\<close> is \<^verbatim>\<open>tobj.norm\<close> and
  \<open>rpr\<close> is \<^verbatim>\<open>tobj.repr\<close>; \<^verbatim>\<open>tobj == self\<close> compares object identity, that is, the
  registered names.
\<close>

fun sepr_loop ::
  "(inst \<Rightarrow> pyval \<Rightarrow> normres) \<Rightarrow> (inst \<Rightarrow> pyval \<Rightarrow> err + pyval) \<Rightarrow> string
    \<Rightarrow> (pyval \<times> string \<times> inst option) list \<Rightarrow> subs \<Rightarrow> pyval list
    \<Rightarrow> err + (subs \<times> pyval list)" where
  "sepr_loop nrm rpr self [] sb reprs = Inr (sb, reprs)"
| "sepr_loop nrm rpr self ((part, name, tobj) # rest) sb reprs =
     (case tobj of
        None \<Rightarrow> Inl AttributeError
      | Some ti \<Rightarrow>
          if i_name ti = self
          then sepr_loop nrm rpr self rest (add_subs sb name part Map.empty) (reprs @ [part])
          else (case nrm ti part of
                  Inl e \<Rightarrow> Inl e
                | Inr (norm, nsub) \<Rightarrow>
                    (case rpr ti norm of
                       Inl e \<Rightarrow> Inl e
                     | Inr r \<Rightarrow>
                         sepr_loop nrm rpr self rest (add_subs sb name norm nsub)
                           (reprs @ [r]))))"

definition SeprType_norm ::
  "(inst \<Rightarrow> pyval \<Rightarrow> normres) \<Rightarrow> (inst \<Rightarrow> pyval \<Rightarrow> err + pyval) \<Rightarrow> (string \<rightharpoonup> inst)
    \<Rightarrow> string \<Rightarrow> info \<Rightarrow> seprtype \<Rightarrow> pyval \<Rightarrow> normres" where
  "SeprType_norm nrm rpr ts name info a valu =
     (case get_fields ts info (sp_fields a) of
        Inl e \<Rightarrow> Inl e
      | Inr flds \<Rightarrow>
          (case (case valu of
                   PStr t \<Rightarrow> map_sum id (map PStr) (split_str name a (length flds) t)
                 | _ \<Rightarrow> if islist valu then Inr (seq_items valu) else Inl TypeError) of
             Inl e \<Rightarrow> Inl e
           | Inr vals \<Rightarrow>
               (case sepr_loop nrm rpr name (zip vals flds) Map.empty [] of
                  Inl e \<Rightarrow> Inl e
                | Inr (sb, reprs) \<Rightarrow>
                    (case py_join (sp_sepr a) reprs of
                       Inl e \<Rightarrow> Inl e
                     | Inr r \<Rightarrow> Inr (r, sb)))))"

subsection \<open>Dispatch on the class of the instance\<close>

text \<open>
  \<^verbatim>\<open>item.repr(valu)\<close>: \<^verbatim>\<open>IntType\<close>, \<^verbatim>\<open>TimeType\<close> and \<^verbatim>\<open>BoolType\<close> override
  \<^verbatim>\<open>DataType.repr\<close>, which returns the value as it is.
\<close>

definition inst_repr :: "ext \<Rightarrow> inst \<Rightarrow> pyval \<Rightarrow> err + pyval" where
  "inst_repr x i valu =
     (case i_obj i of
        IntTypeO a \<Rightarrow> py_format x (it_fmt a) valu
      | TimeTypeO a \<Rightarrow> map_sum id PStr (x_time_repr x valu)
      | BoolTypeO \<Rightarrow> Inr (PStr (if truthy valu then ''True'' else ''False''))
      | _ \<Rightarrow> Inr valu)"

text \<open>
  \<^verbatim>\<open>item.norm(valu, oldval)\<close>. A composite type normalises its fields through the
  registry, whose types may be composite again, so the call depth is not bounded by the
  value. The first argument bounds the depth of nested \<^verbatim>\<open>norm\<close> calls, as the
  interpreter's recursion limit does; beyond it the call raises \<^verbatim>\<open>RecursionError\<close>.
  \<^verbatim>\<open>DataType\<close> and \<^verbatim>\<open>MultiFieldType\<close> define no \<^verbatim>\<open>norm\<close>.
\<close>

fun inst_norm :: "ext \<Rightarrow> nat \<Rightarrow> (string \<rightharpoonup> inst) \<Rightarrow> inst \<Rightarrow> pyval \<Rightarrow> pyval \<Rightarrow> normres" where
  "inst_norm x 0 ts i valu oldval = Inl RecursionError"
| "inst_norm x (Suc n) ts i valu oldval =
     (case i_obj i of
        DataTypeO \<Rightarrow> Inl AttributeError
      | GuidTypeO alias \<Rightarrow> GuidType_norm x (i_name i) alias valu
      | StrTypeO a \<Rightarrow> StrType_norm x (i_name i) (i_info i) a valu
      | JsonTypeO \<Rightarrow> JsonType_norm x (i_name i) valu
      | IntTypeO a \<Rightarrow> IntType_norm (i_name i) a valu oldval
      | MultiFieldTypeO _ \<Rightarrow> Inl AttributeError
      | CompTypeO c \<Rightarrow>
          CompType_norm x
            (\<lambda>nm v. case reqDataType ts nm of
                       Inl e \<Rightarrow> Inl e
                     | Inr j \<Rightarrow> inst_norm x n ts j v PNone)
            (i_name i) c valu
      | XrefTypeO a \<Rightarrow>
          XrefType_norm x
            (\<lambda>nm v. case reqDataType ts nm of
                       Inl e \<Rightarrow> Inl e
                     | Inr j \<Rightarrow> inst_norm x n ts j v PNone)
            (i_name i) a valu
      | TimeTypeO a \<Rightarrow> TimeType_norm x a valu oldval
      | SeprTypeO a \<Rightarrow>
          SeprType_norm (\<lambda>j v. inst_norm x n ts j v PNone) (inst_repr x) ts
            (i_name i) (i_info i) a valu
      | BoolTypeO \<Rightarrow> BoolType_norm (i_name i) valu
      | TagTypeO \<Rightarrow>
          TagType_norm
            (\<lambda>nm v. case reqDataType ts nm of
                       Inl e \<Rightarrow> Inl e
                     | Inr j \<Rightarrow> inst_norm x n ts j v PNone)
            (i_name i) valu)"

section \<open>The type library\<close>

text \<open>
  The state of a \<^verbatim>\<open>TypeLib\<close>: \<^verbatim>\<open>types\<close>, \<^verbatim>\<open>typeinfo\<close>, \<^verbatim>\<open>typetree\<close>, \<^verbatim>\<open>subscache\<close> and
  \<^verbatim>\<open>pended\<close>. \<^verbatim>\<open>pended\<close> is a \<^verbatim>\<open>defaultdict(list)\<close> from the name of a missing base type
  to the definitions that wait for it; the model keeps the waiting definitions in one
  list, each with its key, in the order they were appended (the order within a key is
  the order of the dictionary's list). A key is the value of \<^verbatim>\<open>subof\<close>, which is
  \<^verbatim>\<open>None\<close> for a definition without one. (\<^verbatim>\<open>casts\<close> plays no part below.)
\<close>

record tlib =
  types :: "string \<rightharpoonup> inst"
  typeinfo :: "string \<rightharpoonup> info"
  typetree :: "string \<rightharpoonup> string"
  subscache :: "(string \<times> string) \<rightharpoonup> bool"
  pended :: "(pyval \<times> string \<times> info) list"

text \<open>\<^verbatim>\<open>self.pended.pop(name, ())\<close>: the definitions under a key, and the rest.\<close>

definition pend_pop :: "pyval \<Rightarrow> (pyval \<times> string \<times> info) list \<Rightarrow> (string \<times> info) list" where
  "pend_pop key ps = map snd (filter (\<lambda>p. fst p = key) ps)"

definition pend_rest ::
  "pyval \<Rightarrow> (pyval \<times> string \<times> info) list \<Rightarrow> (pyval \<times> string \<times> info) list" where
  "pend_rest key ps = filter (\<lambda>p. fst p \<noteq> key) ps"

text \<open>
  \<^verbatim>\<open>TypeLib.addType\<close> and \<^verbatim>\<open>TypeLib._bumpBasePend\<close> call each other. \<^verbatim>\<open>addType\<close> calls
  \<^verbatim>\<open>_bumpBasePend(name)\<close> at one point of each of its two \<^verbatim>\<open>try\<close> blocks, right after
  \<^verbatim>\<open>self.types[name] = item\<close>; the model has the code before that point in
  \<open>addType_pre\<close> and the code after it in \<open>addType_post\<close>.

  \<open>addType_pre\<close> yields either the outcome of a call that ends before the bump (the
  value returned or the exception raised, and the state at that moment), or the state
  with the new instance stored and the parent whose edge is to be recorded afterwards
  (\<open>None\<close> in the \<^verbatim>\<open>ctor\<close> block). The \<^verbatim>\<open>except\<close> branch of the first \<^verbatim>\<open>try\<close> removes
  \<^verbatim>\<open>typeinfo[name]\<close> and does not return: control goes on to the second \<^verbatim>\<open>try\<close>, as it
  does when there is no \<^verbatim>\<open>ctor\<close>.
\<close>

text \<open>The text of a name that \<^verbatim>\<open>reqDataType\<close> has found (a registered name is text).\<close>

fun the_str :: "pyval \<Rightarrow> string" where
  "the_str (PStr t) = t"
| "the_str _ = []"

definition addType_pre ::
  "ext \<Rightarrow> tlib \<Rightarrow> string \<Rightarrow> info \<Rightarrow> ((err + bool) \<times> tlib) + (tlib \<times> string option)" where
  "addType_pre x s name info =
     (if types s name \<noteq> None then Inl (Inl (DupTypeName name), s)
      else
        (let ctor = info_get info ''ctor''; subof = info_get info ''subof''
         in if ctor = PNone \<and> subof = PNone then Inl (Inl NoCtorOrSubof, s)
            else
              (case (if ctor \<noteq> PNone then Some (tryDynFunc x ctor name info) else None) of
                 Some (Inr item) \<Rightarrow>
                   Inr (s\<lparr> typeinfo := (typeinfo s)(name \<mapsto> info),
                           types := (types s)(name \<mapsto> item) \<rparr>, None)
               | _ \<Rightarrow>
                   (let s0 = (if ctor \<noteq> PNone then s\<lparr> typeinfo := (typeinfo s)(name := None) \<rparr>
                              else s);
                        pend = (\<lambda>tnam st.
                                  Inl (Inr False,
                                       st\<lparr> typeinfo := (typeinfo st)(name := None),
                                           pended := pended st @ [(tnam, name, info)] \<rparr>))
                    in case reqDataType (types s0) subof of
                         Inl (NoSuchType tnam) \<Rightarrow> pend tnam s0
                       | Inl e \<Rightarrow> Inl (Inl e, s0)
                       | Inr base \<Rightarrow>
                           (let s1 = s0\<lparr> typeinfo := (typeinfo s0)(name \<mapsto> info) \<rparr>
                            in case DataType_extend x base name info of
                                 Inl (NoSuchType tnam) \<Rightarrow> pend tnam s1
                               | Inl e \<Rightarrow> Inl (Inl e, s1)
                               | Inr item \<Rightarrow>
                                   Inr (s1\<lparr> types := (types s1)(name \<mapsto> item) \<rparr>,
                                        Some (the_str subof)))))))"

text \<open>
  After the bump, the second \<^verbatim>\<open>try\<close> block records the edge and clears the cache:
  \<^verbatim>\<open>self.typetree[name] = subof; self.subscache.clear()\<close>. Both blocks return \<^verbatim>\<open>True\<close>.
\<close>

definition addType_post :: "string \<Rightarrow> string option \<Rightarrow> tlib \<Rightarrow> tlib" where
  "addType_post name edge s =
     (case edge of
        None \<Rightarrow> s
      | Some parent \<Rightarrow> s\<lparr> typetree := (typetree s)(name \<mapsto> parent), subscache := Map.empty \<rparr>)"

text \<open>
  The first argument bounds the nesting of \<^verbatim>\<open>addType\<close> and \<^verbatim>\<open>_bumpBasePend\<close>; \<open>None\<close>
  means that the bound was too small. \<open>bump_items\<close> is the loop of \<^verbatim>\<open>_bumpBasePend\<close> over
  the definitions it popped: an exception of \<^verbatim>\<open>addType\<close> is logged there and the loop goes
  on.
\<close>

fun addType_fuel ::
    "ext \<Rightarrow> nat \<Rightarrow> tlib \<Rightarrow> string \<Rightarrow> info \<Rightarrow> ((err + bool) \<times> tlib) option"
  and bump_items :: "ext \<Rightarrow> nat \<Rightarrow> tlib \<Rightarrow> (string \<times> info) list \<Rightarrow> tlib option" where
  "addType_fuel x 0 s name info = None"
| "addType_fuel x (Suc n) s name info =
     (case addType_pre x s name info of
        Inl r \<Rightarrow> Some r
      | Inr (s1, edge) \<Rightarrow>
          (case bump_items x n (s1\<lparr> pended := pend_rest (PStr name) (pended s1) \<rparr>)
                  (pend_pop (PStr name) (pended s1)) of
             None \<Rightarrow> None
           | Some s2 \<Rightarrow> Some (Inr True, addType_post name edge s2)))"
| "bump_items x n s [] = Some s"
| "bump_items x n s ((name, info) # rest) =
     (case addType_fuel x n s name info of
        None \<Rightarrow> None
      | Some (_, s') \<Rightarrow> bump_items x n s' rest)"

text \<open>
  A call of \<^verbatim>\<open>addType\<close> nests at most as deep as there are waiting definitions, plus
  one (\<open>addType_enough\<close> below), so this bound is always large enough.
\<close>

definition addType :: "ext \<Rightarrow> tlib \<Rightarrow> string \<Rightarrow> info \<Rightarrow> (err + bool) \<times> tlib" where
  "addType x s name info = the (addType_fuel x (Suc (length (pended s))) s name info)"

text \<open>
  \<^verbatim>\<open>TypeLib.loadDataModels\<close>, on the type definitions of the models in order: an
  exception of \<^verbatim>\<open>addType\<close> is logged and the next definition is taken.
\<close>

fun loadDataModels :: "ext \<Rightarrow> tlib \<Rightarrow> (string \<times> info) list \<Rightarrow> tlib" where
  "loadDataModels x s [] = s"
| "loadDataModels x s ((name, info) # rest) = loadDataModels x (snd (addType x s name info)) rest"

subsection \<open>\<^verbatim>\<open>TypeLib.__init__\<close>\<close>

text \<open>
  The patterns and the documentation texts of the built-in definitions. (A backslash
  cannot be written inside a string literal: \<open>bsl\<close> is the text \<^verbatim>\<open>\\<close> of one character.)
\<close>

definition bsl :: string where
  "bsl = [CHR 0x5C]"

definition re_prop :: pyval where
  "re_prop = PStr (''^(['' @ bsl @ ''w]+:)*(['' @ bsl @ ''w]+|'' @ bsl @ ''*)$'')"

definition re_type :: pyval where
  "re_type = PStr (''^(['' @ bsl @ ''w]+:)*['' @ bsl @ ''w]+$'')"

definition re_glob :: pyval where
  "re_glob = PStr (''^(['' @ bsl @ ''w]+:)*['' @ bsl @ ''w]+:'' @ bsl @ ''*$'')"

definition re_hex :: pyval where
  "re_hex = PStr ''^[0-9a-f]+$''"

definition doc_str :: pyval where
  "doc_str = PStr ''The base string type''"

definition doc_int :: pyval where
  "doc_int = PStr ''The base integer type''"

definition doc_bool :: pyval where
  "doc_bool = PStr ''A boolean type''"

definition doc_json :: pyval where
  "doc_json = PStr ''A json type (stored as str)''"

definition doc_guid :: pyval where
  "doc_guid = PStr ''A Globally Unique Identifier type''"

definition doc_sepr :: pyval where
  "doc_sepr = PStr ''A multi-field composite type which uses separated repr values''"

definition doc_comp :: pyval where
  "doc_comp = PStr (''A multi-field composite type which generates a stable guid ''
                    @ ''from normalized fields'')"

definition doc_xref :: pyval where
  "doc_xref = PStr (''A multi-field composite type which can be used to link a ''
                    @ ''known form to an unknown form'')"

definition doc_time :: pyval where
  "doc_time = PStr ''Timestamp in milliseconds since epoch''"

definition doc_tag :: pyval where
  "doc_tag = PStr ''A synapse tag''"

definition doc_txt :: pyval where
  "doc_txt = PStr ''Multi-line text or text blob.''"

definition builtin_types :: "(string \<times> info) list" where
  "builtin_types =
     [(''str'', [(''ctor'', cpath ''StrType''), (''doc'', doc_str)]),
      (''int'', [(''ctor'', cpath ''IntType''), (''doc'', doc_int)]),
      (''bool'', [(''ctor'', cpath ''BoolType''), (''doc'', doc_bool)]),
      (''json'', [(''ctor'', cpath ''JsonType''), (''doc'', doc_json)]),
      (''guid'', [(''ctor'', cpath ''GuidType''), (''doc'', doc_guid)]),
      (''sepr'', [(''ctor'', cpath ''SeprType''), (''doc'', doc_sepr)]),
      (''comp'', [(''ctor'', cpath ''CompType''), (''doc'', doc_comp)]),
      (''xref'', [(''ctor'', cpath ''XrefType''), (''doc'', doc_xref)]),
      (''time'', [(''ctor'', cpath ''TimeType''), (''doc'', doc_time),
                  (''ex'', PStr ''20161216084632'')]),
      (''syn:tag'', [(''ctor'', cpath ''TagType''), (''doc'', doc_tag),
                     (''ex'', PStr ''foo.bar'')]),
      (''syn:prop'', [(''subof'', PStr ''str''), (''regex'', re_prop), (''lower'', PInt 1)]),
      (''syn:type'', [(''subof'', PStr ''str''), (''regex'', re_type), (''lower'', PInt 1)]),
      (''syn:glob'', [(''subof'', PStr ''str''), (''regex'', re_glob), (''lower'', PInt 1)]),
      (''int:min'', [(''subof'', PStr ''int''), (''ismin'', PInt 1)]),
      (''int:max'', [(''subof'', PStr ''int''), (''ismax'', PInt 1)]),
      (''str:lwr'', [(''subof'', PStr ''str''), (''lower'', PInt 1), (''strip'', PInt 1)]),
      (''str:txt'', [(''subof'', PStr ''str''), (''doc'', doc_txt)]),
      (''str:hex'', [(''subof'', PStr ''str''), (''frob_int_fmt'', PStr ''%x''),
                     (''regex'', re_hex), (''lower'', PInt 1)])]"

text \<open>
  The calls of \<^verbatim>\<open>addType\<close> in \<^verbatim>\<open>__init__\<close>, one after the other; an exception ends the
  constructor.
\<close>

fun addTypes :: "ext \<Rightarrow> tlib \<Rightarrow> (string \<times> info) list \<Rightarrow> err + tlib" where
  "addTypes x s [] = Inr s"
| "addTypes x s ((name, info) # rest) =
     (case addType x s name info of
        (Inl e, _) \<Rightarrow> Inl e
      | (Inr _, s') \<Rightarrow> addTypes x s' rest)"

definition tlib_empty :: tlib where
  "tlib_empty = \<lparr> types = Map.empty, typeinfo = Map.empty, typetree = Map.empty,
                   subscache = Map.empty, pended = [] \<rparr>"

text \<open>
  \<^verbatim>\<open>TypeLib(load)\<close>: the built-in types, and with \<^verbatim>\<open>load\<close> (the default) the types of
  the models.
\<close>

definition TypeLib_init :: "ext \<Rightarrow> bool \<Rightarrow> err + tlib" where
  "TypeLib_init x load =
     (case addTypes x tlib_empty builtin_types of
        Inl e \<Rightarrow> Inl e
      | Inr s \<Rightarrow> Inr (if load then loadDataModels x s (x_base_types x) else s))"

subsection \<open>Queries\<close>

text \<open>
  \<^verbatim>\<open>TypeLib.getTypeBases\<close>: the \<^verbatim>\<open>while\<close> loop follows \<^verbatim>\<open>typetree\<close> upwards and does not
  end if the tree has a cycle; not returning is the value \<open>None\<close>.
\<close>

partial_function (option) bases_loop ::
  "(string \<rightharpoonup> string) \<Rightarrow> string list \<Rightarrow> string option \<Rightarrow> string list option" where
  "bases_loop tt dn todo =
     (case todo of None \<Rightarrow> Some dn | Some t \<Rightarrow> bases_loop tt (dn @ [t]) (tt t))"

definition getTypeBases :: "tlib \<Rightarrow> string \<Rightarrow> string list option" where
  "getTypeBases s name = map_option rev (bases_loop (typetree s) [name] (typetree s name))"

text \<open>\<^verbatim>\<open>TypeLib.isSubType\<close>: the answer and the state with the answer cached.\<close>

definition isSubType :: "tlib \<Rightarrow> string \<Rightarrow> string \<Rightarrow> (bool \<times> tlib) option" where
  "isSubType s name base =
     (case subscache s (name, base) of
        Some r \<Rightarrow> Some (r, s)
      | None \<Rightarrow>
          (case getTypeBases s name of
             None \<Rightarrow> None
           | Some bs \<Rightarrow>
               (let r = (base \<in> set bs)
                in Some (r, s\<lparr> subscache := (subscache s)((name, base) \<mapsto> r) \<rparr>))))"

text \<open>
  \<^verbatim>\<open>TypeLib.getTypeNorm\<close> and \<^verbatim>\<open>TypeLib.getTypeRepr\<close>; the first argument of
  \<open>getTypeNorm\<close> is the depth bound of \<open>inst_norm\<close>.
\<close>

definition getTypeNorm :: "ext \<Rightarrow> nat \<Rightarrow> tlib \<Rightarrow> string \<Rightarrow> pyval \<Rightarrow> pyval \<Rightarrow> normres" where
  "getTypeNorm x n s name valu oldval =
     (case reqDataType (types s) (PStr name) of
        Inl e \<Rightarrow> Inl e
      | Inr i \<Rightarrow> inst_norm x n (types s) i valu oldval)"

definition getTypeRepr :: "ext \<Rightarrow> tlib \<Rightarrow> string \<Rightarrow> pyval \<Rightarrow> err + pyval" where
  "getTypeRepr x s name valu =
     (case reqDataType (types s) (PStr name) of
        Inl e \<Rightarrow> Inl e
      | Inr i \<Rightarrow> inst_repr x i valu)"

subsection \<open>The states of a type library\<close>

text \<open>
  The states a \<^verbatim>\<open>TypeLib\<close> goes through, from the start of its constructor on: the
  attributes change in \<^verbatim>\<open>addType\<close> (which \<^verbatim>\<open>__init__\<close>, \<^verbatim>\<open>loadDataModels\<close> and the callers
  of the library use) and in \<^verbatim>\<open>isSubType\<close>.
\<close>

inductive reachable :: "ext \<Rightarrow> tlib \<Rightarrow> bool" for x :: ext where
  reach_empty: "reachable x tlib_empty"
| reach_addType: "reachable x s \<Longrightarrow> reachable x (snd (addType x s name info))"
| reach_isSubType: "reachable x s \<Longrightarrow> isSubType s name base = Some (r, s') \<Longrightarrow> reachable x s'"

subsection \<open>An environment for concrete runs\<close>

text \<open>
  A simple choice of the outside helpers, used where a statement is run on concrete
  inputs: every info dictionary is storable, every pattern compiles and matches, a time
  is a decimal number of milliseconds, and the identifier of a value is a constant.
\<close>

definition ext0 :: ext where
  "ext0 = \<lparr> x_storable = (\<lambda>_. True),
            x_guid = (\<lambda>v. ''00000000000000000000000000000000''),
            x_newguid = ''0123456789abcdef0123456789abcdef'',
            x_time_parse = (\<lambda>t. case parse_nat 10 t of
                                   None \<Rightarrow> Inl (BadTypeValu ''time'' (PStr t))
                                 | Some n \<Rightarrow> Inr (int n)),
            x_time_repr = (\<lambda>v. case v of PInt i \<Rightarrow> Inr (int_str 10 i) | _ \<Rightarrow> Inl TypeError),
            x_parse_list = (\<lambda>_. Inl LibError),
            x_json_dumps = (\<lambda>_. Inl LibError),
            x_json_recode = (\<lambda>_. None),
            x_re_valid = (\<lambda>_. True),
            x_re_match = (\<lambda>_ _. True),
            x_re_sub = (\<lambda>_ t. t),
            x_format = (\<lambda>_ _. Inl LibError),
            x_base_types = [] \<rparr>"

subsection \<open>Statements in the words of the specification\<close>

text \<open>
  The bound check of the integer type as the specification puts it: after min/max
  accumulation the configured minimum and maximum are enforced on the result, which is
  rejected with \<^verbatim>\<open>BadValue\<close> if it violates one. \<open>bound_val\<close> is the value of the
  \<^verbatim>\<open>min\<close> or \<^verbatim>\<open>max\<close> option of a type with or without that bound.
\<close>

definition bound_val :: "int option \<Rightarrow> pyval" where
  "bound_val b = (case b of None \<Rightarrow> PNone | Some i \<Rightarrow> PInt i)"

definition enforce_bounds :: "string \<Rightarrow> int option \<Rightarrow> int option \<Rightarrow> int \<Rightarrow> normres" where
  "enforce_bounds name lo hi r =
     (if (case lo of None \<Rightarrow> False | Some l \<Rightarrow> r < l)
         \<or> (case hi of None \<Rightarrow> False | Some h \<Rightarrow> h < r)
      then Inl (BadTypeValu name (PInt r))
      else Inr (PInt r, Map.empty))"

subsection \<open>Invariants of the registry\<close>

text \<open>Registered names keep their instance and their edge.\<close>

definition frame :: "tlib \<Rightarrow> tlib \<Rightarrow> bool" where
  "frame s s' = (\<forall>k. types s k \<noteq> None \<longrightarrow> types s' k = types s k \<and> typetree s' k = typetree s k)"

text \<open>The edges of \<^verbatim>\<open>typetree\<close>, as pairs of a parent and its child.\<close>

definition tree_rel :: "tlib \<Rightarrow> (string \<times> string) set" where
  "tree_rel s = {(p, c). typetree s c = Some p}"

text \<open>Every edge joins two registered names.\<close>

definition edges_ok :: "tlib \<Rightarrow> bool" where
  "edges_ok s = (\<forall>c p. typetree s c = Some p \<longrightarrow> types s c \<noteq> None \<and> types s p \<noteq> None)"

text \<open>
  The inheritance tree is well formed: its edges join registered names and no name is
  its own ancestor (following parents always ends).
\<close>

definition tree_ok :: "tlib \<Rightarrow> bool" where
  "tree_ok s = (edges_ok s \<and> wf (tree_rel s))"

text \<open>The cache changes only by being cleared, and is cleared when the tree changes.\<close>

definition cache_step :: "tlib \<Rightarrow> tlib \<Rightarrow> bool" where
  "cache_step s s' =
     ((typetree s' = typetree s \<and> subscache s' = subscache s) \<or> subscache s' = Map.empty)"

text \<open>Every cached answer is the answer that \<^verbatim>\<open>getTypeBases\<close> gives now.\<close>

definition cache_ok :: "tlib \<Rightarrow> bool" where
  "cache_ok s =
     (\<forall>n b v. subscache s (n, b) = Some v \<longrightarrow>
        (\<exists>bs. getTypeBases s n = Some bs \<and> v = (b \<in> set bs)))"

text \<open>The invariant of the states of a type library.\<close>

definition lib_inv :: "tlib \<Rightarrow> bool" where
  "lib_inv s = (tree_ok s \<and> cache_ok s)"

text \<open>
  A small library for concrete runs: \<^verbatim>\<open>int\<close>, a query for the subtype relation of a name
  that is not registered yet, and then \<^verbatim>\<open>int:min\<close>.
\<close>

definition lib_int :: tlib where
  "lib_int = snd (addType ext0 tlib_empty ''int'' [(''ctor'', cpath ''IntType''), (''doc'', doc_int)])"

definition lib_asked :: tlib where
  "lib_asked = snd (the (isSubType lib_int ''int:min'' ''int''))"

definition lib_min :: tlib where
  "lib_min = snd (addType ext0 lib_asked ''int:min'' [(''subof'', PStr ''int''), (''ismin'', PInt 1)])"

subsection \<open>Deferred definitions\<close>


text \<open>
  A definition \<open>(c, ci)\<close> that can be built on the type registered as \<open>p\<close>: it has no
  \<^verbatim>\<open>ctor\<close>, its \<^verbatim>\<open>subof\<close> is \<open>p\<close>, and \<^verbatim>\<open>extend\<close> of the instance of \<open>p\<close> accepts it.
\<close>

definition good_child :: "ext \<Rightarrow> tlib \<Rightarrow> string \<Rightarrow> string \<Rightarrow> info \<Rightarrow> bool" where
  "good_child x s p c ci =
     (info_get ci ''ctor'' = PNone \<and> info_get ci ''subof'' = PStr p
      \<and> (\<exists>pi item. types s p = Some pi \<and> DataType_extend x pi c ci = Inr item))"


text \<open>
  A later state: what a state becomes by further calls of \<^verbatim>\<open>addType\<close> and \<^verbatim>\<open>isSubType\<close>.
\<close>

inductive steps :: "ext \<Rightarrow> tlib \<Rightarrow> tlib \<Rightarrow> bool" for x :: ext and s :: tlib where
  steps_none: "steps x s s"
| steps_addType: "steps x s t \<Longrightarrow> steps x s (snd (addType x t name info))"
| steps_isSubType: "steps x s t \<Longrightarrow> isSubType t name base = Some (r, t') \<Longrightarrow> steps x s t'"

text \<open>
  The definitions that wait, directly or through waiting ancestors, for the name \<open>p\<close> in
  the state \<open>t\<close>, each one buildable on its parent as registered in \<open>t'\<close>.
\<close>

inductive waits :: "ext \<Rightarrow> tlib \<Rightarrow> tlib \<Rightarrow> string \<Rightarrow> string \<Rightarrow> bool"
  for x :: ext and t :: tlib and t' :: tlib and p :: string where
  waits_child: "(PStr p, c, ci) \<in> set (pended t) \<Longrightarrow> good_child x t' p c ci \<Longrightarrow> waits x t t' p c"
| waits_desc: "waits x t t' p c \<Longrightarrow> (PStr c, g, gi) \<in> set (pended t) \<Longrightarrow>
               good_child x t' c g gi \<Longrightarrow> waits x t t' p g"




section \<open>Properties\<close>

subsection \<open>Rewriting a call of \<open>inst_norm\<close>\<close>

text \<open>
  The equation of \<open>inst_norm\<close> is used through the rules below, one for each class, on
  an instance whose attributes are given.
\<close>

lemmas inst_norm_unfold = inst_norm.simps(2)

declare inst_norm.simps(2) [simp del]

lemma inst_norm_leaf [simp]:
  "inst_norm x (Suc n) ts \<lparr> i_name = nm, i_info = fo, i_obj = GuidTypeO alias \<rparr> v old
     = GuidType_norm x nm alias v"
  "inst_norm x (Suc n) ts \<lparr> i_name = nm, i_info = fo, i_obj = StrTypeO sa \<rparr> v old
     = StrType_norm x nm fo sa v"
  "inst_norm x (Suc n) ts \<lparr> i_name = nm, i_info = fo, i_obj = JsonTypeO \<rparr> v old
     = JsonType_norm x nm v"
  "inst_norm x (Suc n) ts \<lparr> i_name = nm, i_info = fo, i_obj = IntTypeO ia \<rparr> v old
     = IntType_norm nm ia v old"
  "inst_norm x (Suc n) ts \<lparr> i_name = nm, i_info = fo, i_obj = TimeTypeO ta \<rparr> v old
     = TimeType_norm x ta v old"
  "inst_norm x (Suc n) ts \<lparr> i_name = nm, i_info = fo, i_obj = BoolTypeO \<rparr> v old
     = BoolType_norm nm v"
  "inst_norm x (Suc n) ts \<lparr> i_name = nm, i_info = fo, i_obj = DataTypeO \<rparr> v old
     = Inl AttributeError"
  "inst_norm x (Suc n) ts \<lparr> i_name = nm, i_info = fo, i_obj = MultiFieldTypeO fc \<rparr> v old
     = Inl AttributeError"
  by (simp_all add: inst_norm_unfold)

text \<open>\<^verbatim>\<open>self.tlib.getTypeNorm\<close> as the composite types call it, one level deeper.\<close>

lemma inst_norm_multi [simp]:
  "inst_norm x (Suc n) ts \<lparr> i_name = nm, i_info = fo, i_obj = CompTypeO c \<rparr> v old
     = CompType_norm x
         (\<lambda>tn w. case reqDataType ts tn of Inl e \<Rightarrow> Inl e | Inr j \<Rightarrow> inst_norm x n ts j w PNone)
         nm c v"
  "inst_norm x (Suc n) ts \<lparr> i_name = nm, i_info = fo, i_obj = XrefTypeO xa \<rparr> v old
     = XrefType_norm x
         (\<lambda>tn w. case reqDataType ts tn of Inl e \<Rightarrow> Inl e | Inr j \<Rightarrow> inst_norm x n ts j w PNone)
         nm xa v"
  "inst_norm x (Suc n) ts \<lparr> i_name = nm, i_info = fo, i_obj = SeprTypeO sp \<rparr> v old
     = SeprType_norm (\<lambda>j w. inst_norm x n ts j w PNone) (inst_repr x) ts nm fo sp v"
  "inst_norm x (Suc n) ts \<lparr> i_name = nm, i_info = fo, i_obj = TagTypeO \<rparr> v old
     = TagType_norm
         (\<lambda>tn w. case reqDataType ts tn of Inl e \<Rightarrow> Inl e | Inr j \<Rightarrow> inst_norm x n ts j w PNone)
         nm v"
  by (simp_all add: inst_norm_unfold)

text \<open>The constructors without their local bindings.\<close>

lemma IntType_init_eq:
  "IntType_init info =
     IntTypeO \<lparr> it_fmt = info_get_d info ''fmt'' (PStr ''%d''),
                it_minval = info_get info ''min'', it_maxval = info_get info ''max'',
                it_ismin = info_get_d info ''ismin'' (PBool False),
                it_ismax = info_get_d info ''ismax'' (PBool False),
                it_minmax = minmax_of (info_get_d info ''ismin'' (PBool False))
                              (info_get_d info ''ismax'' (PBool False)) \<rparr>"
  by (simp add: IntType_init_def Let_def)

lemma TimeType_init_eq:
  "TimeType_init info =
     TimeTypeO \<lparr> tt_ismin = info_get_d info ''ismin'' (PBool False),
                 tt_ismax = info_get_d info ''ismax'' (PBool False),
                 tt_minmax = minmax_of (info_get_d info ''ismin'' (PBool False))
                               (info_get_d info ''ismax'' (PBool False)) \<rparr>"
  by (simp add: TimeType_init_def Let_def)

lemma sub_prefix_empty [simp]: "sub_prefix name Map.empty = Map.empty"
  by (simp add: sub_prefix_def fun_eq_iff)

lemma add_subs_empty [simp]: "add_subs sb name v Map.empty = sb(name \<mapsto> v)"
  by (simp add: add_subs_def)

lemma digits_of_small: "n < b \<Longrightarrow> digits_of b n = [digit_chr n]"
  by (simp add: digits_of.simps)


subsection \<open>Cross-references with a wrong number of parts\<close>

lemma xref_list_bad:
  "length vs \<noteq> 3 \<Longrightarrow> XrefType_norm_list x gtn a vs = Inl (NameError ''text'')"
  by (auto simp: XrefType_norm_list_def split: list.splits)

text \<open>
  C5. The claim is that an \<^verbatim>\<open>xref\<close> type rejects a list that does not have exactly three
  elements, and a text that does not split into exactly three parts at \<^verbatim>\<open>|\<close>, with
  \<^verbatim>\<open>BadValue\<close>. The code does reject them, but the exception is \<^verbatim>\<open>NameError\<close>: the
  rejecting line of \<^verbatim>\<open>_norm_list\<close> mentions \<^verbatim>\<open>text\<close>, a name of \<^verbatim>\<open>_norm_str\<close>. The theorem
  states what the code does, for every \<^verbatim>\<open>xref\<close> instance, list, tuple and text.
\<close>

theorem C5_xref_part_count:
  "(length vs \<noteq> 3 \<longrightarrow>
      inst_norm x (Suc n) ts \<lparr> i_name = nm, i_info = fo, i_obj = XrefTypeO a \<rparr> (PList vs) old
        = Inl (NameError ''text''))
   \<and> (length vs \<noteq> 3 \<longrightarrow>
      inst_norm x (Suc n) ts \<lparr> i_name = nm, i_info = fo, i_obj = XrefTypeO a \<rparr> (PTuple vs) old
        = Inl (NameError ''text''))
   \<and> (length (split_chr CHR ''|'' t) \<noteq> 3 \<and> \<not> (length t = 32 \<and> CHR ''|'' \<notin> set t) \<longrightarrow>
      inst_norm x (Suc n) ts \<lparr> i_name = nm, i_info = fo, i_obj = XrefTypeO a \<rparr> (PStr t) old
        = Inl (NameError ''text''))"
  by (simp add: XrefType_norm_def XrefType_norm_str_def xref_list_bad)

theorem C5_xref_part_count_witness:
  "length [PStr ''a'', PStr ''b''] \<noteq> 3
   \<and> inst_norm ext0 (Suc 0) Map.empty
        \<lparr> i_name = ''xref'', i_info = [],
          i_obj = XrefTypeO \<lparr> xt_sorc_type = PNone, xt_sorc_name = PNone \<rparr> \<rparr>
        (PList [PStr ''a'', PStr ''b'']) PNone = Inl (NameError ''text'')"
  using C5_xref_part_count [of "[PStr ''a'', PStr ''b'']" ext0 0 Map.empty "''xref''" "[]"
      "\<lparr> xt_sorc_type = PNone, xt_sorc_name = PNone \<rparr>" PNone]
  by simp

subsection \<open>Integer min/max accumulation\<close>

lemma py_min_int: "py_min (PInt v) (PInt w) = Inr (PInt (min v w))"
  by (auto simp: py_min_def py_lt_def min_def)

lemma py_max_int: "py_max (PInt v) (PInt w) = Inr (PInt (max v w))"
  by (auto simp: py_max_def py_lt_def max_def)

lemma int_bounds:
  "it_minval a = bound_val lo \<Longrightarrow> it_maxval a = bound_val hi \<Longrightarrow> it_minmax a = mm \<Longrightarrow>
   accumulate mm (PInt v) old = Inr (PInt r) \<Longrightarrow>
   IntType_norm name a (PInt v) old = enforce_bounds name lo hi r"
  by (cases lo; cases hi)
     (auto simp: IntType_norm_def enforce_bounds_def bound_val_def py_lt_def bad_def
           split: bool.splits)

text \<open>
  C6. An \<^verbatim>\<open>IntType\<close> instance whose \<^verbatim>\<open>ismin\<close> option is true normalises an integer \<open>v\<close>
  with the old value \<open>old\<close> to \<open>min v old\<close>, and one whose \<^verbatim>\<open>ismax\<close> option is true (and
  whose \<^verbatim>\<open>ismin\<close> is not: the constructor tests \<^verbatim>\<open>ismin\<close> first) to \<open>max v old\<close>; the
  configured bounds are then enforced on that result, which is rejected with \<^verbatim>\<open>BadValue\<close>
  if it lies below the minimum or above the maximum.
\<close>

theorem C6_int_accumulate:
  assumes "i_obj i = IntType_init info"
    and "info_get info ''min'' = bound_val lo" and "info_get info ''max'' = bound_val hi"
  shows "(truthy (info_get_d info ''ismin'' (PBool False)) \<longrightarrow>
            inst_norm x (Suc n) ts i (PInt v) (PInt old)
              = enforce_bounds (i_name i) lo hi (min v old))
       \<and> (\<not> truthy (info_get_d info ''ismin'' (PBool False)) \<and>
            truthy (info_get_d info ''ismax'' (PBool False)) \<longrightarrow>
            inst_norm x (Suc n) ts i (PInt v) (PInt old)
              = enforce_bounds (i_name i) lo hi (max v old))"
  using assms
  by (cases i)
     (auto simp: IntType_init_eq minmax_of_def accumulate_def py_min_int py_max_int
           intro!: int_bounds)

text \<open>
  The instances are those of the built-in \<^verbatim>\<open>int:min\<close> and \<^verbatim>\<open>int:max\<close> (the options of the
  definition, then those inherited from \<^verbatim>\<open>int\<close>), on the inputs of the specification.
\<close>

theorem C6_int_accumulate_witness:
  "inst_norm ext0 (Suc 0) Map.empty
     \<lparr> i_name = ''int:min'',
       i_info = [(''subof'', PStr ''int''), (''ismin'', PInt 1),
                 (''ctor'', cpath ''IntType''),
                 (''doc'', doc_int)],
       i_obj = IntType_init [(''subof'', PStr ''int''), (''ismin'', PInt 1),
                 (''ctor'', cpath ''IntType''),
                 (''doc'', doc_int)] \<rparr>
     (PInt 50) (PInt 30) = Inr (PInt 30, Map.empty)
   \<and> inst_norm ext0 (Suc 0) Map.empty
     \<lparr> i_name = ''int:max'',
       i_info = [(''subof'', PStr ''int''), (''ismax'', PInt 1),
                 (''ctor'', cpath ''IntType''),
                 (''doc'', doc_int)],
       i_obj = IntType_init [(''subof'', PStr ''int''), (''ismax'', PInt 1),
                 (''ctor'', cpath ''IntType''),
                 (''doc'', doc_int)] \<rparr>
     (PInt 50) (PInt 30) = Inr (PInt 50, Map.empty)"
  using C6_int_accumulate [of
      "\<lparr> i_name = ''int:min'',
         i_info = [(''subof'', PStr ''int''), (''ismin'', PInt 1),
                   (''ctor'', cpath ''IntType''),
                   (''doc'', doc_int)],
         i_obj = IntType_init [(''subof'', PStr ''int''), (''ismin'', PInt 1),
                   (''ctor'', cpath ''IntType''),
                   (''doc'', doc_int)] \<rparr>"
      "[(''subof'', PStr ''int''), (''ismin'', PInt 1),
        (''ctor'', cpath ''IntType''),
        (''doc'', doc_int)]" None None ext0 0 Map.empty 50 30]
    C6_int_accumulate [of
      "\<lparr> i_name = ''int:max'',
         i_info = [(''subof'', PStr ''int''), (''ismax'', PInt 1),
                   (''ctor'', cpath ''IntType''),
                   (''doc'', doc_int)],
         i_obj = IntType_init [(''subof'', PStr ''int''), (''ismax'', PInt 1),
                   (''ctor'', cpath ''IntType''),
                   (''doc'', doc_int)] \<rparr>"
      "[(''subof'', PStr ''int''), (''ismax'', PInt 1),
        (''ctor'', cpath ''IntType''),
        (''doc'', doc_int)]" None None ext0 0 Map.empty 50 30]
  by (simp add: info_get_def info_get_d_def bound_val_def enforce_bounds_def)

subsection \<open>\<open>addType\<close> returns\<close>

text \<open>
  More fuel does not change a result, and a bound above the number of waiting
  definitions is enough: every call of \<^verbatim>\<open>addType\<close> returns, and \<open>addType\<close> is the
  result of \<open>addType_fuel\<close> for every bound that gives one.
\<close>

lemma fuel_mono:
  "addType_fuel x n s name info = Some r \<Longrightarrow> n \<le> m \<Longrightarrow> addType_fuel x m s name info = Some r"
  "bump_items x n s items = Some s' \<Longrightarrow> n \<le> m \<Longrightarrow> bump_items x m s items = Some s'"
proof (induction x n s name info and x n s items arbitrary: m r and m s'
       rule: addType_fuel_bump_items.induct)
  case (1 x s name info)
  then show ?case by simp
next
  case (2 x n s name info)
  from "2.prems" obtain m' where m: "m = Suc m'" "n \<le> m'"
    by (cases m) auto
  show ?case
  proof (cases "addType_pre x s name info")
    case (Inl a)
    with "2.prems" m show ?thesis by simp
  next
    case (Inr b)
    obtain s1 edge where b: "b = (s1, edge)" by (cases b)
    from "2.prems" Inr b obtain s2 where
      s2: "bump_items x n (s1\<lparr>pended := pend_rest (PStr name) (pended s1)\<rparr>)
             (pend_pop (PStr name) (pended s1)) = Some s2"
      and r: "r = (Inr True, addType_post name edge s2)"
      by (auto split: option.splits)
    from "2.IH"[OF Inr b[symmetric] s2 m(2)] r Inr b m
    show ?thesis by simp
  qed
next
  case (3 x n s)
  then show ?case by simp
next
  case (4 x n s name info rest)
  from "4.prems" obtain r1 s1 where
    a: "addType_fuel x n s name info = Some (r1, s1)"
    and b: "bump_items x n s1 rest = Some s'"
    by (auto split: option.splits)
  from "4.IH"(1)[OF a "4.prems"(2)] "4.IH"(2)[OF a refl b "4.prems"(2)]
  show ?case by simp
qed


lemma reqDataType_Inr:
  "reqDataType ts nm = Inr i \<Longrightarrow> \<exists>n. nm = PStr n \<and> ts n = Some i"
  by (auto simp: reqDataType_def split: if_splits pyval.splits option.splits)

lemma pre_Inl:
  assumes "addType_pre x s name info = Inl (r, s')"
  shows "types s' = types s \<and> typetree s' = typetree s \<and> subscache s' = subscache s
         \<and> (pended s' = pended s
             \<or> (\<exists>tnam. pended s' = pended s @ [(tnam, name, info)] \<and> r = Inr False))"
  using assms
  by (auto simp: addType_pre_def Let_def split: if_splits sum.splits option.splits err.splits)

lemma pre_Inr:
  assumes "addType_pre x s name info = Inr (s1, edge)"
  shows "types s name = None \<and> (\<exists>item. types s1 = (types s)(name \<mapsto> item))
         \<and> typetree s1 = typetree s \<and> subscache s1 = subscache s \<and> pended s1 = pended s
         \<and> typeinfo s1 = (typeinfo s)(name \<mapsto> info)
         \<and> (\<forall>p. edge = Some p \<longrightarrow> types s p \<noteq> None \<and> info_get info ''subof'' = PStr p)"
  using assms
  by (auto simp: addType_pre_def Let_def split: if_splits sum.splits option.splits err.splits
           dest!: reqDataType_Inr)

lemma pop_rest_length: "length (pend_pop k ps) + length (pend_rest k ps) = length ps"
  by (simp add: pend_pop_def pend_rest_def sum_length_filter_compl)

lemma post_fields [simp]:
  "pended (addType_post name edge s) = pended s"
  "types (addType_post name edge s) = types s"
  "typeinfo (addType_post name edge s) = typeinfo s"
  by (simp_all add: addType_post_def split: option.splits)

lemma bump_total_from:
  assumes A: "\<And>s name info. length (pended s) < n \<Longrightarrow>
           \<exists>r s'. addType_fuel x n s name info = Some (r, s')
                 \<and> length (pended s') \<le> Suc (length (pended s))"
  shows "length (pended s) + length items \<le> n \<Longrightarrow>
         \<exists>s'. bump_items x n s items = Some s'
              \<and> length (pended s') \<le> length (pended s) + length items"
proof (induction items arbitrary: s)
  case Nil
  then show ?case by simp
next
  case (Cons it rest)
  obtain name info where it: "it = (name, info)" by (cases it)
  from Cons.prems have "length (pended s) < n" by simp
  from A[OF this, of name info] obtain r s1 where
    a: "addType_fuel x n s name info = Some (r, s1)"
    and l: "length (pended s1) \<le> Suc (length (pended s))" by blast
  from Cons.prems l have "length (pended s1) + length rest \<le> n" by simp
  from Cons.IH[OF this] obtain s' where
    b: "bump_items x n s1 rest = Some s'"
    and l': "length (pended s') \<le> length (pended s1) + length rest" by blast
  from a b l l' it show ?case by simp
qed

lemma addType_total_aux:
  "length (pended s) < n \<Longrightarrow>
     \<exists>r s'. addType_fuel x n s name info = Some (r, s')
           \<and> length (pended s') \<le> Suc (length (pended s))"
proof (induction n arbitrary: s name info)
  case 0
  then show ?case by simp
next
  case (Suc n)
  show ?case
  proof (cases "addType_pre x s name info")
    case (Inl a)
    obtain r s' where a: "a = (r, s')" by (cases a)
    from pre_Inl[OF Inl[unfolded a]] Inl a show ?thesis by auto
  next
    case (Inr b)
    obtain s1 edge where b: "b = (s1, edge)" by (cases b)
    from pre_Inr[OF Inr[unfolded b]] have p: "pended s1 = pended s" by simp
    let ?s1' = "s1\<lparr>pended := pend_rest (PStr name) (pended s1)\<rparr>"
    let ?items = "pend_pop (PStr name) (pended s1)"
    have len: "length (pended ?s1') + length ?items \<le> n"
      using Suc.prems p pop_rest_length[of "PStr name" "pended s"] by simp
    from bump_total_from[of n x ?s1' ?items, OF Suc.IH len]
    obtain s2 where s2: "bump_items x n ?s1' ?items = Some s2"
      and l2: "length (pended s2) \<le> length (pended ?s1') + length ?items" by blast
    from l2 p pop_rest_length[of "PStr name" "pended s"]
    have "length (pended s2) \<le> length (pended s)" by simp
    with s2 Inr b show ?thesis by simp
  qed
qed

lemma addType_enough:
  "\<exists>r. addType_fuel x (Suc (length (pended s))) s name info = Some r"
  using addType_total_aux[of s "Suc (length (pended s))" x name info] by auto

lemma addType_eq_fuel:
  "addType_fuel x n s name info = Some r \<Longrightarrow> addType x s name info = r"
proof -
  assume a: "addType_fuel x n s name info = Some r"
  obtain r' where b: "addType_fuel x (Suc (length (pended s))) s name info = Some r'"
    using addType_enough by blast
  have "r' = r"
  proof (cases "n \<le> Suc (length (pended s))")
    case True
    from fuel_mono(1)[OF a True] b show ?thesis by simp
  next
    case False
    then have "Suc (length (pended s)) \<le> n" by simp
    from fuel_mono(1)[OF b this] a show ?thesis by simp
  qed
  with b show ?thesis by (simp add: addType_def)
qed

lemma addType_fuel_ex: "\<exists>n. addType_fuel x n s name info = Some (addType x s name info)"
proof -
  obtain r where r: "addType_fuel x (Suc (length (pended s))) s name info = Some r"
    using addType_enough by blast
  then have "addType x s name info = r" by (rule addType_eq_fuel)
  with r show ?thesis by blast
qed

subsection \<open>What \<open>addType\<close> preserves\<close>

text \<open>
  A relation between states that is reflexive and transitive holds between the state
  before and after \<^verbatim>\<open>addType\<close> if it holds across the code before and after the bump.
\<close>

lemma bump_items_lift:
  assumes refl: "\<And>s. P s s"
    and trans: "\<And>s t u. P s t \<Longrightarrow> P t u \<Longrightarrow> P s u"
    and add: "\<And>s name info r s'. addType_fuel x n s name info = Some (r, s') \<Longrightarrow> P s s'"
  shows "bump_items x n s items = Some s' \<Longrightarrow> P s s'"
proof (induction items arbitrary: s)
  case Nil
  then show ?case using refl by simp
next
  case (Cons it rest)
  obtain name info where it: "it = (name, info)" by (cases it)
  from Cons.prems it obtain r1 s1 where
    a: "addType_fuel x n s name info = Some (r1, s1)"
    and b: "bump_items x n s1 rest = Some s'"
    by (auto split: option.splits)
  from add[OF a] Cons.IH[OF b] show ?case by (rule trans)
qed

lemma addType_preserves:
  assumes refl: "\<And>s. P s s"
    and trans: "\<And>s t u. P s t \<Longrightarrow> P t u \<Longrightarrow> P s u"
    and pre: "\<And>s name info r s'. addType_pre x s name info = Inl (r, s') \<Longrightarrow> P s s'"
    and bump: "\<And>s name info s1 edge s2 k.
                 addType_pre x s name info = Inr (s1, edge) \<Longrightarrow>
                 bump_items x k (s1\<lparr>pended := pend_rest (PStr name) (pended s1)\<rparr>)
                   (pend_pop (PStr name) (pended s1)) = Some s2 \<Longrightarrow>
                 P (s1\<lparr>pended := pend_rest (PStr name) (pended s1)\<rparr>) s2 \<Longrightarrow>
                 P s (addType_post name edge s2)"
  shows "addType_fuel x n s name info = Some (r, s') \<Longrightarrow> P s s'"
proof (induction n arbitrary: s name info r s')
  case 0
  then show ?case by simp
next
  case (Suc n)
  show ?case
  proof (cases "addType_pre x s name info")
    case (Inl a)
    with Suc.prems have "addType_pre x s name info = Inl (r, s')" by simp
    then show ?thesis by (rule pre)
  next
    case (Inr b)
    obtain s1 edge where b: "b = (s1, edge)" by (cases b)
    from Suc.prems Inr b obtain s2 where
      s2: "bump_items x n (s1\<lparr>pended := pend_rest (PStr name) (pended s1)\<rparr>)
             (pend_pop (PStr name) (pended s1)) = Some s2"
      and r: "s' = addType_post name edge s2"
      by (auto split: option.splits)
    have "P (s1\<lparr>pended := pend_rest (PStr name) (pended s1)\<rparr>) s2"
      by (rule bump_items_lift[where P = P and x = x and n = n, OF refl trans Suc.IH s2])
    with Inr[unfolded b] s2 have "P s (addType_post name edge s2)" by (rule bump)
    with r show ?thesis by simp
  qed
qed

lemma addType_preserves_total:
  assumes refl: "\<And>s. P s s"
    and trans: "\<And>s t u. P s t \<Longrightarrow> P t u \<Longrightarrow> P s u"
    and pre: "\<And>s name info r s'. addType_pre x s name info = Inl (r, s') \<Longrightarrow> P s s'"
    and bump: "\<And>s name info s1 edge s2 k.
                 addType_pre x s name info = Inr (s1, edge) \<Longrightarrow>
                 bump_items x k (s1\<lparr>pended := pend_rest (PStr name) (pended s1)\<rparr>)
                   (pend_pop (PStr name) (pended s1)) = Some s2 \<Longrightarrow>
                 P (s1\<lparr>pended := pend_rest (PStr name) (pended s1)\<rparr>) s2 \<Longrightarrow>
                 P s (addType_post name edge s2)"
  shows "P s (snd (addType x s name info))"
proof -
  obtain n where "addType_fuel x n s name info = Some (addType x s name info)"
    using addType_fuel_ex by blast
  then have e: "addType_fuel x n s name info
               = Some (fst (addType x s name info), snd (addType x s name info))" by simp
  show ?thesis
    using refl trans pre bump e
    by (rule addType_preserves[where P = P and x = x])
qed

lemma frame_addType: "frame s (snd (addType x s name info))"
proof (rule addType_preserves_total)
  show "\<And>s. frame s s" by (simp add: frame_def)
  show "\<And>s t u. frame s t \<Longrightarrow> frame t u \<Longrightarrow> frame s u" by (auto simp: frame_def)
  show "\<And>s name info r s'. addType_pre x s name info = Inl (r, s') \<Longrightarrow> frame s s'"
    by (drule pre_Inl) (simp add: frame_def)
  show "\<And>s name info s1 edge s2 k.
          addType_pre x s name info = Inr (s1, edge) \<Longrightarrow>
          bump_items x k (s1\<lparr>pended := pend_rest (PStr name) (pended s1)\<rparr>)
            (pend_pop (PStr name) (pended s1)) = Some s2 \<Longrightarrow>
          frame (s1\<lparr>pended := pend_rest (PStr name) (pended s1)\<rparr>) s2 \<Longrightarrow>
          frame s (addType_post name edge s2)"
    by (drule pre_Inr) (auto simp: frame_def addType_post_def split: option.splits)
qed

lemma ancestors_registered:
  assumes e: "edges_ok s" and f: "frame s s2" and p: "types s p \<noteq> None"
    and a: "(a, p) \<in> (tree_rel s2)\<^sup>*"
  shows "types s a \<noteq> None"
  using a
proof (induction rule: converse_rtrancl_induct)
  case base
  from p show ?case .
next
  case (step y z)
  from step.hyps(1) have "typetree s2 z = Some y" by (simp add: tree_rel_def)
  with f step.IH have "typetree s z = Some y" by (auto simp: frame_def)
  with e show ?case by (auto simp: edges_ok_def)
qed

lemma tree_rel_upd:
  "typetree s name = None \<Longrightarrow>
   tree_rel (s\<lparr>typetree := (typetree s)(name \<mapsto> p), subscache := sc\<rparr>) = insert (p, name) (tree_rel s)"
  by (auto simp: tree_rel_def)

lemma frame_trans: "frame s t \<Longrightarrow> frame t u \<Longrightarrow> frame s u"
  by (auto simp: frame_def)

lemma tree_ok_addType: "tree_ok s \<Longrightarrow> tree_ok (snd (addType x s name info))"
proof -
  let ?P = "\<lambda>s s'. frame s s' \<and> (tree_ok s \<longrightarrow> tree_ok s')"
  have "?P s (snd (addType x s name info))"
  proof (rule addType_preserves_total[where P = ?P])
    show "\<And>s. ?P s s" by (simp add: frame_def)
    show "\<And>s t u. ?P s t \<Longrightarrow> ?P t u \<Longrightarrow> ?P s u" by (auto intro: frame_trans)
    show "\<And>s name info r s'. addType_pre x s name info = Inl (r, s') \<Longrightarrow> ?P s s'"
      by (drule pre_Inl) (simp add: frame_def tree_ok_def edges_ok_def tree_rel_def)
  next
    fix s name info s1 edge s2 k
    assume pre: "addType_pre x s name info = Inr (s1, edge)"
    let ?s1 = "s1\<lparr>pended := pend_rest (PStr name) (pended s1)\<rparr>"
    assume "bump_items x k ?s1 (pend_pop (PStr name) (pended s1)) = Some s2"
    assume P: "?P ?s1 s2"
    from pre_Inr[OF pre] obtain item where
      un: "types s name = None" and t1: "types s1 = (types s)(name \<mapsto> item)"
      and tt1: "typetree s1 = typetree s"
      and ed: "\<forall>p. edge = Some p \<longrightarrow> types s p \<noteq> None"
      by auto
    have f1: "frame s ?s1" using un t1 tt1 by (auto simp: frame_def)
    from P have f2: "frame ?s1 s2" by simp
    have f: "frame s s2" using f1 f2 by (rule frame_trans)
    have fr: "frame s (addType_post name edge s2)"
      using f un by (auto simp: frame_def addType_post_def split: option.splits)
    have inv: "tree_ok (addType_post name edge s2)" if ok: "tree_ok s"
    proof -
      from ok un have ttn: "typetree s name = None"
        by (cases "typetree s name") (fastforce simp: tree_ok_def edges_ok_def)+
      from ok t1 tt1 have "tree_ok ?s1"
        by (auto simp: tree_ok_def edges_ok_def tree_rel_def)
      with P have ok2: "tree_ok s2" by simp
      show ?thesis
      proof (cases edge)
        case None
        with ok2 show ?thesis by (simp add: addType_post_def)
      next
        case (Some p)
        with ed have pr: "types s p \<noteq> None" by simp
        from f2 t1 tt1 ttn have n2: "types s2 name \<noteq> None" "typetree s2 name = None"
          by (auto simp: frame_def)
        from f pr have p2: "types s2 p \<noteq> None" by (auto simp: frame_def)
        have "(name, p) \<notin> (tree_rel s2)\<^sup>*"
        proof
          assume a: "(name, p) \<in> (tree_rel s2)\<^sup>*"
          from ok have "edges_ok s" by (simp add: tree_ok_def)
          from this f pr a have "types s name \<noteq> None"
            by (rule ancestors_registered)
          with un show False by simp
        qed
        with ok2 have "wf (insert (p, name) (tree_rel s2))"
          by (simp add: wf_insert tree_ok_def)
        moreover have "edges_ok (s2\<lparr>typetree := (typetree s2)(name \<mapsto> p), subscache := Map.empty\<rparr>)"
          using ok2 n2 p2 by (auto simp: tree_ok_def edges_ok_def)
        ultimately show ?thesis
          using Some n2 by (simp add: addType_post_def tree_ok_def tree_rel_upd)
      qed
    qed
    from fr inv show "?P s (addType_post name edge s2)" by simp
  qed
  then show "tree_ok s \<Longrightarrow> tree_ok (snd (addType x s name info))" by simp
qed

lemma bases_loop_wf:
  assumes "wf {(p, c). tt c = Some p}"
  shows "\<exists>bs. bases_loop tt dn (Some t) = Some (dn @ t # bs)"
  using assms
proof (induction t arbitrary: dn rule: wf_induct_rule)
  case (less t)
  show ?case
  proof (cases "tt t")
    case None
    then show ?thesis by (simp add: bases_loop.simps)
  next
    case (Some p)
    then have "(p, t) \<in> {(p, c). tt c = Some p}" by simp
    from less.IH[OF this, of "dn @ [t]"] obtain bs where
      "bases_loop tt (dn @ [t]) (Some p) = Some ((dn @ [t]) @ p # bs)" by blast
    with Some show ?thesis by (subst bases_loop.simps) simp
  qed
qed

lemma getTypeBases_ok:
  assumes "tree_ok s"
  shows "\<exists>bs. getTypeBases s name = Some bs \<and> name \<in> set bs
              \<and> (types s name = None \<longrightarrow> bs = [name])"
proof (cases "typetree s name")
  case None
  then show ?thesis by (simp add: getTypeBases_def bases_loop.simps)
next
  case (Some p)
  from assms have "wf {(p, c). typetree s c = Some p}" by (simp add: tree_ok_def tree_rel_def)
  from bases_loop_wf[OF this, of "[name]" p] obtain bs where
    "bases_loop (typetree s) [name] (Some p) = Some ([name] @ p # bs)" by blast
  moreover from assms Some have "types s name \<noteq> None" by (auto simp: tree_ok_def edges_ok_def)
  ultimately show ?thesis using Some by (simp add: getTypeBases_def)
qed

lemma cache_step_addType: "cache_step s (snd (addType x s name info))"
proof (rule addType_preserves_total)
  show "\<And>s. cache_step s s" by (simp add: cache_step_def)
  show "\<And>s t u. cache_step s t \<Longrightarrow> cache_step t u \<Longrightarrow> cache_step s u"
    by (auto simp: cache_step_def)
  show "\<And>s name info r s'. addType_pre x s name info = Inl (r, s') \<Longrightarrow> cache_step s s'"
    by (drule pre_Inl) (simp add: cache_step_def)
  show "\<And>s name info s1 edge s2 k.
          addType_pre x s name info = Inr (s1, edge) \<Longrightarrow>
          bump_items x k (s1\<lparr>pended := pend_rest (PStr name) (pended s1)\<rparr>)
            (pend_pop (PStr name) (pended s1)) = Some s2 \<Longrightarrow>
          cache_step (s1\<lparr>pended := pend_rest (PStr name) (pended s1)\<rparr>) s2 \<Longrightarrow>
          cache_step s (addType_post name edge s2)"
    by (drule pre_Inr) (auto simp: cache_step_def addType_post_def split: option.splits)
qed

lemma cache_ok_step: "cache_ok s \<Longrightarrow> cache_step s s' \<Longrightarrow> cache_ok s'"
  by (auto simp: cache_ok_def cache_step_def getTypeBases_def)

lemma isSubType_state:
  "isSubType s name base = Some (r, s') \<Longrightarrow>
     types s' = types s \<and> typetree s' = typetree s \<and> pended s' = pended s
     \<and> (subscache s' = subscache s \<or>
          (\<exists>bs. getTypeBases s name = Some bs \<and> subscache s' = (subscache s)((name, base) \<mapsto> base \<in> set bs)))"
  by (auto simp: isSubType_def Let_def split: option.splits)

lemma getTypeBases_cong: "typetree s' = typetree s \<Longrightarrow> getTypeBases s' n = getTypeBases s n"
  by (simp add: getTypeBases_def)

lemma cache_ok_isSubType:
  assumes c: "cache_ok s" and i: "isSubType s name base = Some (r, s')"
  shows "cache_ok s'"
proof -
  from isSubType_state[OF i] have tt: "typetree s' = typetree s"
    and sc: "subscache s' = subscache s \<or>
          (\<exists>bs. getTypeBases s name = Some bs
                \<and> subscache s' = (subscache s)((name, base) \<mapsto> base \<in> set bs))"
    by auto
  show ?thesis
    unfolding cache_ok_def
  proof (intro allI impI)
    fix n b v
    assume v: "subscache s' (n, b) = Some v"
    from sc show "\<exists>bs. getTypeBases s' n = Some bs \<and> v = (b \<in> set bs)"
    proof
      assume "subscache s' = subscache s"
      with v c show ?thesis by (simp add: cache_ok_def getTypeBases_cong[OF tt])
    next
      assume "\<exists>bs. getTypeBases s name = Some bs
                \<and> subscache s' = (subscache s)((name, base) \<mapsto> base \<in> set bs)"
      then obtain bs where bs: "getTypeBases s name = Some bs"
        and u: "subscache s' = (subscache s)((name, base) \<mapsto> base \<in> set bs)" by blast
      show ?thesis
      proof (cases "(n, b) = (name, base)")
        case True
        with v u bs show ?thesis by (simp add: getTypeBases_cong[OF tt])
      next
        case False
        with v u have "subscache s (n, b) = Some v" by (auto split: if_splits)
        with c show ?thesis by (simp add: cache_ok_def getTypeBases_cong[OF tt])
      qed
    qed
  qed
qed

lemma reachable_inv: "reachable x s \<Longrightarrow> lib_inv s"
proof (induction rule: reachable.induct)
  case reach_empty
  show ?case
    by (simp add: lib_inv_def tree_ok_def edges_ok_def tree_rel_def cache_ok_def tlib_empty_def)
next
  case (reach_addType s name info)
  then show ?case
    using tree_ok_addType[of s x name info] cache_step_addType[of s x name info]
    by (auto simp: lib_inv_def intro: cache_ok_step)
next
  case (reach_isSubType s name base r s')
  from isSubType_state[OF reach_isSubType.hyps(2)] reach_isSubType.IH
  have "tree_ok s'" by (simp add: lib_inv_def tree_ok_def edges_ok_def tree_rel_def)
  moreover from reach_isSubType.IH reach_isSubType.hyps(2) have "cache_ok s'"
    by (auto simp: lib_inv_def intro: cache_ok_isSubType)
  ultimately show ?case by (simp add: lib_inv_def)
qed

lemma isSubType_answer:
  assumes "lib_inv s"
  shows "\<exists>bs s'. getTypeBases s n = Some bs \<and> isSubType s n b = Some (b \<in> set bs, s')"
proof -
  from assms getTypeBases_ok[of s n] obtain bs where
    bs: "getTypeBases s n = Some bs" by (auto simp: lib_inv_def)
  show ?thesis
  proof (cases "subscache s (n, b)")
    case None
    with bs show ?thesis by (simp add: isSubType_def Let_def)
  next
    case (Some v)
    from assms have "cache_ok s" by (simp add: lib_inv_def)
    with Some obtain bs' where "getTypeBases s n = Some bs'" "v = (b \<in> set bs')"
      unfolding cache_ok_def by blast
    with bs have "v = (b \<in> set bs)" by simp
    with Some bs show ?thesis by (simp add: isSubType_def)
  qed
qed

subsection \<open>Running \<open>addType\<close> on concrete definitions\<close>

lemma pend_rest_none: "pend_pop key ps = [] \<Longrightarrow> pend_rest key ps = ps"
  by (induction ps) (auto simp: pend_pop_def pend_rest_def split: if_splits)

lemma addType_ctor_step:
  assumes "types s name = None" "info_get info ''ctor'' \<noteq> PNone"
    and "pend_pop (PStr name) (pended s) = []"
    and "tryDynFunc x (info_get info ''ctor'') name info = Inr item"
  shows "addType x s name info =
           (Inr True, s\<lparr> typeinfo := (typeinfo s)(name \<mapsto> info),
                          types := (types s)(name \<mapsto> item) \<rparr>)"
  using assms
  by (simp add: addType_def addType_pre_def Let_def addType_post_def pend_rest_none)

lemma addType_subof_step:
  assumes "types s name = None" "info_get info ''ctor'' = PNone"
    and "info_get info ''subof'' = PStr parent" "types s parent = Some base"
    and "pend_pop (PStr name) (pended s) = []"
    and "DataType_extend x base name info = Inr item"
  shows "addType x s name info =
           (Inr True, s\<lparr> typeinfo := (typeinfo s)(name \<mapsto> info),
                          types := (types s)(name \<mapsto> item),
                          typetree := (typetree s)(name \<mapsto> parent),
                          subscache := Map.empty \<rparr>)"
  using assms
  by (simp add: addType_def addType_pre_def Let_def addType_post_def pend_rest_none
        reqDataType_def)

lemma addType_ctor_eval:
  assumes "types s name = None" "info_get info ''ctor'' \<noteq> PNone"
    and "pend_pop (PStr name) (pended s) = []"
    and "\<not> isl (tryDynFunc x (info_get info ''ctor'') name info)"
  shows "addType x s name info =
           (Inr True, s\<lparr> typeinfo := (typeinfo s)(name \<mapsto> info),
                          types := (types s)(name \<mapsto>
                                     projr (tryDynFunc x (info_get info ''ctor'') name info)) \<rparr>)"
  using assms
  by (cases "tryDynFunc x (info_get info ''ctor'') name info") (simp_all add: addType_ctor_step)

lemma addType_subof_eval:
  assumes "types s name = None" "info_get info ''ctor'' = PNone"
    and "info_get info ''subof'' = PStr parent" "types s parent = Some base"
    and "pend_pop (PStr name) (pended s) = []"
    and "\<not> isl (DataType_extend x base name info)"
  shows "addType x s name info =
           (Inr True, s\<lparr> typeinfo := (typeinfo s)(name \<mapsto> info),
                          types := (types s)(name \<mapsto> projr (DataType_extend x base name info)),
                          typetree := (typetree s)(name \<mapsto> parent),
                          subscache := Map.empty \<rparr>)"
  using assms by (cases "DataType_extend x base name info") (simp_all add: addType_subof_step)

lemma ctor_class_simps:
  "ctor_class (cpath ''StrType'') = Some StrTypeC"
  "ctor_class (cpath ''IntType'') = Some IntTypeC"
  "ctor_class (cpath ''BoolType'') = Some BoolTypeC"
  "ctor_class (cpath ''JsonType'') = Some JsonTypeC"
  "ctor_class (cpath ''GuidType'') = Some GuidTypeC"
  "ctor_class (cpath ''SeprType'') = Some SeprTypeC"
  "ctor_class (cpath ''CompType'') = Some CompTypeC"
  "ctor_class (cpath ''XrefType'') = Some XrefTypeC"
  "ctor_class (cpath ''TimeType'') = Some TimeTypeC"
  "ctor_class (cpath ''TagType'') = Some TagTypeC"
  by (simp_all add: ctor_class_def cpath_def)

lemma const_facts:
  "isstr (cpath c)" "cpath c \<noteq> PNone"
  "isstr doc_str" "isstr doc_int" "isstr doc_bool" "isstr doc_json" "isstr doc_guid"
  "isstr doc_sepr" "isstr doc_comp" "isstr doc_xref" "isstr doc_time" "isstr doc_tag"
  "isstr doc_txt" "isstr re_prop" "isstr re_type" "isstr re_glob" "isstr re_hex"
  "re_prop \<noteq> PNone" "re_type \<noteq> PNone" "re_glob \<noteq> PNone" "re_hex \<noteq> PNone"
  by (simp_all add: cpath_def doc_str_def doc_int_def doc_bool_def doc_json_def doc_guid_def
        doc_sepr_def doc_comp_def doc_xref_def doc_time_def doc_tag_def doc_txt_def
        re_prop_def re_type_def re_glob_def re_hex_def)

lemma ext0_simps:
  "x_storable ext0 info" "x_re_valid ext0 p" "x_re_match ext0 p t" "x_re_sub ext0 p t = t"
  "x_newguid ext0 = ''0123456789abcdef0123456789abcdef''"
  "x_guid ext0 v = ''00000000000000000000000000000000''"
  "x_time_parse ext0 t = (case parse_nat 10 t of
                            None \<Rightarrow> Inl (BadTypeValu ''time'' (PStr t))
                          | Some n \<Rightarrow> Inr (int n))"
  "x_time_repr ext0 v = (case v of PInt i \<Rightarrow> Inr (int_str 10 i) | _ \<Rightarrow> Inl TypeError)"
  by (simp_all add: ext0_def)

lemma cls_of_init [simp]:
  "cls_of (IntType_init info) = IntTypeC"
  "cls_of (TimeType_init info) = TimeTypeC"
  "cls_of (SeprType_init info) = SeprTypeC"
  by (simp_all add: IntType_init_eq TimeType_init_eq SeprType_init_def)

lemma lib_int_eq:
  "lib_int = \<lparr> types = [''int'' \<mapsto> \<lparr> i_name = ''int'',
                                       i_info = [(''ctor'', cpath ''IntType''), (''doc'', doc_int)],
                                       i_obj = IntType_init [(''ctor'', cpath ''IntType''), (''doc'', doc_int)] \<rparr>],
               typeinfo = [''int'' \<mapsto> [(''ctor'', cpath ''IntType''), (''doc'', doc_int)]],
               typetree = Map.empty, subscache = Map.empty, pended = [] \<rparr>"
  by (simp add: lib_int_def tlib_empty_def addType_ctor_eval info_get_def pend_pop_def
        tryDynFunc_def ctor_class_simps const_facts construct_def class_init_def ext0_simps)

lemma lib_asked_eq:
  "isSubType lib_int ''int:min'' ''int'' = Some (False, lib_asked)"
  "lib_asked = lib_int\<lparr> subscache := [(''int:min'', ''int'') \<mapsto> False] \<rparr>"
  by (simp_all add: lib_asked_def isSubType_def getTypeBases_def bases_loop.simps lib_int_eq)

lemma lib_min_eq:
  "lib_min = \<lparr> types = [''int'' \<mapsto> \<lparr> i_name = ''int'',
                                       i_info = [(''ctor'', cpath ''IntType''), (''doc'', doc_int)],
                                       i_obj = IntType_init [(''ctor'', cpath ''IntType''), (''doc'', doc_int)] \<rparr>,
                        ''int:min'' \<mapsto> \<lparr> i_name = ''int:min'',
                                       i_info = [(''subof'', PStr ''int''), (''ismin'', PInt 1),
                                                 (''ctor'', cpath ''IntType''), (''doc'', doc_int)],
                                       i_obj = IntType_init [(''subof'', PStr ''int''), (''ismin'', PInt 1),
                                                 (''ctor'', cpath ''IntType''), (''doc'', doc_int)] \<rparr>],
               typeinfo = [''int'' \<mapsto> [(''ctor'', cpath ''IntType''), (''doc'', doc_int)],
                           ''int:min'' \<mapsto> [(''subof'', PStr ''int''), (''ismin'', PInt 1)]],
               typetree = [''int:min'' \<mapsto> ''int''], subscache = Map.empty, pended = [] \<rparr>"
  by (simp add: lib_min_def lib_asked_eq lib_int_eq addType_subof_eval info_get_def pend_pop_def
        const_facts construct_def class_init_def ext0_simps DataType_extend_def info_extend_def)

lemma reachable_libs: "reachable ext0 lib_int" "reachable ext0 lib_asked" "reachable ext0 lib_min"
proof -
  show a: "reachable ext0 lib_int"
    unfolding lib_int_def by (rule reach_addType[OF reach_empty])
  show b: "reachable ext0 lib_asked"
    by (rule reach_isSubType[OF a lib_asked_eq(1)])
  show "reachable ext0 lib_min"
    unfolding lib_min_def by (rule reach_addType[OF b])
qed

subsection \<open>The bases of a name\<close>

text \<open>
  C10. In every state of a type library and for every name, registered or not,
  \<^verbatim>\<open>getTypeBases\<close> returns (the loop ends) a list that contains the name, which is the
  one-element list of the name if the name is not registered, and \<^verbatim>\<open>isSubType(name, name)\<close>
  returns \<^verbatim>\<open>True\<close>; neither raises.
\<close>

theorem C10_bases_contain_name:
  assumes "reachable x s"
  shows "\<exists>bs s'. getTypeBases s name = Some bs \<and> name \<in> set bs
            \<and> (types s name = None \<longrightarrow> bs = [name])
            \<and> isSubType s name name = Some (True, s')"
proof -
  from assms have inv: "lib_inv s" by (rule reachable_inv)
  then obtain bs where bs: "getTypeBases s name = Some bs" "name \<in> set bs"
    "types s name = None \<longrightarrow> bs = [name]"
    using getTypeBases_ok[of s name] by (auto simp: lib_inv_def)
  from isSubType_answer[OF inv, of name name] bs obtain s' where
    s': "isSubType s name name = Some (True, s')" by auto
  from bs s' show ?thesis by (intro exI[of _ bs] exI[of _ s']) simp
qed

theorem C10_bases_contain_name_witness:
  "getTypeBases lib_min ''nosuch'' = Some [''nosuch'']
   \<and> map_option fst (isSubType lib_min ''nosuch'' ''nosuch'') = Some True
   \<and> getTypeBases lib_min ''int:min'' = Some [''int'', ''int:min'']
   \<and> map_option fst (isSubType lib_min ''int:min'' ''int:min'') = Some True"
  using C10_bases_contain_name[OF reachable_libs(3), of "''nosuch''"]
    C10_bases_contain_name[OF reachable_libs(3), of "''int:min''"]
  by (auto simp: lib_min_eq getTypeBases_def bases_loop.simps)

subsection \<open>The subtype cache\<close>

lemma pre_Inl_not_True: "addType_pre x s name info = Inl (r, s') \<Longrightarrow> r \<noteq> Inr True"
  by (auto simp: addType_pre_def Let_def split: if_splits sum.splits option.splits err.splits)

lemma pre_Inr_edge:
  "addType_pre x s name info = Inr (s1, edge) \<Longrightarrow> info_get info ''ctor'' = PNone \<Longrightarrow>
     edge = Some (the_str (info_get info ''subof''))"
  by (auto simp: addType_pre_def Let_def split: if_splits sum.splits option.splits err.splits)

lemma addType_True_subof:
  assumes a: "addType x s name info = (Inr True, s')" and c: "info_get info ''ctor'' = PNone"
  shows "typetree s' name = Some (the_str (info_get info ''subof'')) \<and> subscache s' = Map.empty"
proof -
  from a have f: "addType_fuel x (Suc (length (pended s))) s name info = Some (Inr True, s')"
    using addType_enough[of x s name info] by (auto simp: addType_def)
  show ?thesis
  proof (cases "addType_pre x s name info")
    case (Inl b)
    with f have "addType_pre x s name info = Inl (Inr True, s')" by simp
    from pre_Inl_not_True[OF this] show ?thesis by simp
  next
    case (Inr b)
    obtain s1 edge where b: "b = (s1, edge)" by (cases b)
    from pre_Inr_edge[OF Inr[unfolded b] c] have e: "edge = Some (the_str (info_get info ''subof''))" .
    from f Inr b e show ?thesis
      by (auto simp: addType_post_def split: option.splits)
  qed
qed

text \<open>
  C8. In every state of a type library, a call of \<^verbatim>\<open>addType\<close> that changes the inheritance
  tree leaves the subtype cache empty; in particular a call without \<^verbatim>\<open>ctor\<close> that returns
  \<^verbatim>\<open>True\<close> has recorded the edge from the name to its \<^verbatim>\<open>subof\<close> and emptied the cache. After
  the call every answer of \<^verbatim>\<open>isSubType\<close> is the one computed from the tree as it is then:
  no cached answer is stale.
\<close>

theorem C8_cache_cleared:
  assumes "reachable x s" and "addType x s name info = (r, s')"
  shows "(typetree s' \<noteq> typetree s \<longrightarrow> subscache s' = Map.empty)
       \<and> (r = Inr True \<and> info_get info ''ctor'' = PNone \<longrightarrow>
            typetree s' name = Some (the_str (info_get info ''subof''))
            \<and> subscache s' = Map.empty)
       \<and> (\<forall>n b. \<exists>bs s''. getTypeBases s' n = Some bs
                          \<and> isSubType s' n b = Some (b \<in> set bs, s''))"
proof (intro conjI impI allI)
  from cache_step_addType[of s x name info] assms(2)
  show "subscache s' = Map.empty" if "typetree s' \<noteq> typetree s"
    using that by (auto simp: cache_step_def)
next
  assume "r = Inr True \<and> info_get info ''ctor'' = PNone"
  with assms(2) show "typetree s' name = Some (the_str (info_get info ''subof''))"
    and "subscache s' = Map.empty"
    using addType_True_subof[of x s name info s'] by auto
next
  fix n b
  from reach_addType[OF assms(1), of name info] assms(2) have "reachable x s'" by simp
  then have "lib_inv s'" by (rule reachable_inv)
  then show "\<exists>bs s''. getTypeBases s' n = Some bs \<and> isSubType s' n b = Some (b \<in> set bs, s'')"
    by (rule isSubType_answer)
qed

lemma lib_min_add:
  "addType ext0 lib_asked ''int:min'' [(''subof'', PStr ''int''), (''ismin'', PInt 1)]
     = (Inr True, lib_min)"
  by (simp add: lib_min_eq lib_asked_eq lib_int_eq addType_subof_eval info_get_def pend_pop_def
        const_facts construct_def class_init_def ext0_simps DataType_extend_def info_extend_def)

theorem C8_cache_cleared_witness:
  "subscache lib_asked (''int:min'', ''int'') = Some False
   \<and> typetree lib_min ''int:min'' = Some ''int''
   \<and> subscache lib_min = Map.empty
   \<and> map_option fst (isSubType lib_min ''int:min'' ''int'') = Some True"
proof -
  have a: "subscache lib_asked (''int:min'', ''int'') = Some False"
    by (simp add: lib_asked_eq)
  have b: "map_option fst (isSubType lib_min ''int:min'' ''int'') = Some True"
    by (simp add: lib_min_eq isSubType_def getTypeBases_def bases_loop.simps)
  from C8_cache_cleared[OF reachable_libs(2) lib_min_add]
  have "typetree lib_min ''int:min'' = Some ''int'' \<and> subscache lib_min = Map.empty"
    by (simp add: info_get_def)
  with a b show ?thesis by simp
qed

subsection \<open>Deferred resolution and constructor failures\<close>









lemma frame_fuel: "addType_fuel x n s name info = Some (r, s') \<Longrightarrow> frame s s'"
  using frame_addType[of s x name info] by (auto dest: addType_eq_fuel)

lemma frame_bump: "bump_items x n s items = Some s' \<Longrightarrow> frame s s'"
proof (rule bump_items_lift[where P = frame and x = x and n = n])
  show "\<And>s. frame s s" by (simp add: frame_def)
  show "\<And>s t u. frame s t \<Longrightarrow> frame t u \<Longrightarrow> frame s u" by (rule frame_trans)
  show "\<And>s name info r s'. addType_fuel x n s name info = Some (r, s') \<Longrightarrow> frame s s'"
    by (rule frame_fuel)
qed








lemma addType_True:
  assumes a: "addType x s name info = (Inr True, s')"
  shows "types s name = None \<and> types s' name \<noteq> None"
proof -
  from a have f: "addType_fuel x (Suc (length (pended s))) s name info = Some (Inr True, s')"
    using addType_enough[of x s name info] by (auto simp: addType_def)
  show ?thesis
  proof (cases "addType_pre x s name info")
    case (Inl b)
    with f have "addType_pre x s name info = Inl (Inr True, s')" by simp
    from pre_Inl_not_True[OF this] show ?thesis by simp
  next
    case (Inr b)
    obtain s1 edge where b: "b = (s1, edge)" by (cases b)
    from pre_Inr[OF Inr[unfolded b]] obtain item where
      un: "types s name = None" and t1: "types s1 = (types s)(name \<mapsto> item)" by auto
    from f Inr b obtain s2 where
      s2: "bump_items x (length (pended s)) (s1\<lparr>pended := pend_rest (PStr name) (pended s1)\<rparr>)
             (pend_pop (PStr name) (pended s1)) = Some s2"
      and s': "s' = addType_post name edge s2"
      by (auto split: option.splits)
    from frame_bump[OF s2] t1 have "types s2 name \<noteq> None" by (auto simp: frame_def)
    with s' un show ?thesis by simp
  qed
qed












lemma addType_falls_through:
  assumes "types s name = None" "info_get info ''ctor'' \<noteq> PNone"
    and "tryDynFunc x (info_get info ''ctor'') name info = Inl e"
    and "info_get info ''subof'' = PNone"
  shows "addType x s name info =
           (Inr False, s\<lparr> typeinfo := (typeinfo s)(name := None),
                          pended := pended s @ [(PNone, name, info)] \<rparr>)"
  using assms by (simp add: addType_def addType_pre_def reqDataType_def Let_def)

lemma addType_pre_True:
  assumes "addType_pre x s name info = Inr (s1, edge)"
  shows "fst (addType x s name info) = Inr True"
proof -
  obtain r where r: "addType_fuel x (Suc (length (pended s))) s name info = Some r"
    using addType_enough by blast
  with assms have "fst r = Inr True" by (auto split: option.splits)
  with r show ?thesis by (simp add: addType_def)
qed

lemma addType_second_try:
  assumes "types s name = None" "info_get info ''ctor'' \<noteq> PNone"
    and "tryDynFunc x (info_get info ''ctor'') name info = Inl e"
    and "info_get info ''subof'' = PStr p" "types s p = Some base"
    and "DataType_extend x base name info = Inr item"
  shows "fst (addType x s name info) = Inr True \<and> types (snd (addType x s name info)) name \<noteq> None"
proof -
  from assms have "\<exists>s1 edge. addType_pre x s name info = Inr (s1, edge)"
    by (simp add: addType_pre_def reqDataType_def Let_def)
  then obtain s1 edge where "addType_pre x s name info = Inr (s1, edge)" by blast
  from addType_pre_True[OF this] have t: "fst (addType x s name info) = Inr True" .
  then have "addType x s name info = (Inr True, snd (addType x s name info))"
    by (cases "addType x s name info") simp
  from addType_True[OF this] t show ?thesis by simp
qed

text \<open>
  Claim C4. The claim says that a definition whose constructor raises is dropped: never queued,
  never retried, and absent from \<open>types\<close> and \<open>typeinfo\<close> afterwards. The code removes the
  \<open>typeinfo\<close> entry but does not return: control continues with the \<open>subof\<close> lookup.
  Without a \<open>subof\<close> option the lookup of \<open>None\<close> fails and the definition is appended to
  the pending queue under the key \<open>None\<close>. With a \<open>subof\<close> naming a registered type on which
  the definition can be built, the name is registered after all and the call returns True.
\<close>

theorem C4_ctor_failure_falls_through:
  assumes "types s name = None" and "info_get info ''ctor'' \<noteq> PNone"
    and "tryDynFunc x (info_get info ''ctor'') name info = Inl e"
  shows "(info_get info ''subof'' = PNone \<longrightarrow>
            addType x s name info =
              (Inr False, s\<lparr> typeinfo := (typeinfo s)(name := None),
                             pended := pended s @ [(PNone, name, info)] \<rparr>))
       \<and> (\<forall>p base item. info_get info ''subof'' = PStr p \<and> types s p = Some base
              \<and> DataType_extend x base name info = Inr item \<longrightarrow>
            fst (addType x s name info) = Inr True
            \<and> types (snd (addType x s name info)) name \<noteq> None)"
  using assms addType_falls_through[of s name info x e]
    addType_second_try[of s name info x e]
  by blast

theorem C4_ctor_failure_falls_through_witness:
  "tryDynFunc ext0 (cpath ''XrefType'') ''foo:refs''
       [(''ctor'', cpath ''XrefType''), (''source'', PStr ''nocomma'')]
     = Inl (BadInfoValu ''source'' (PStr ''nocomma''))
   \<and> addType ext0 tlib_empty ''foo:refs''
       [(''ctor'', cpath ''XrefType''), (''source'', PStr ''nocomma'')]
     = (Inr False,
        tlib_empty\<lparr> pended := [(PNone, ''foo:refs'',
                      [(''ctor'', cpath ''XrefType''), (''source'', PStr ''nocomma'')])] \<rparr>)
   \<and> fst (addType ext0 lib_int ''foo:refs''
            [(''ctor'', cpath ''XrefType''), (''source'', PStr ''nocomma''),
             (''subof'', PStr ''int'')]) = Inr True
   \<and> types (snd (addType ext0 lib_int ''foo:refs''
            [(''ctor'', cpath ''XrefType''), (''source'', PStr ''nocomma''),
             (''subof'', PStr ''int'')])) ''foo:refs'' \<noteq> None"
proof -
  have f1: "tryDynFunc ext0 (cpath ''XrefType'') ''foo:refs''
       [(''ctor'', cpath ''XrefType''), (''source'', PStr ''nocomma'')]
     = Inl (BadInfoValu ''source'' (PStr ''nocomma''))"
    by (simp add: tryDynFunc_def ctor_class_simps construct_def ext0_simps class_init_def
          XrefType_init_def info_get_def split_chr_def)
  have f2: "tryDynFunc ext0 (cpath ''XrefType'') ''foo:refs''
       [(''ctor'', cpath ''XrefType''), (''source'', PStr ''nocomma''), (''subof'', PStr ''int'')]
     = Inl (BadInfoValu ''source'' (PStr ''nocomma''))"
    by (simp add: tryDynFunc_def ctor_class_simps construct_def ext0_simps class_init_def
          XrefType_init_def info_get_def split_chr_def)
  have f3: "\<not> isl (DataType_extend ext0
       \<lparr> i_name = ''int'', i_info = [(''ctor'', cpath ''IntType''), (''doc'', doc_int)],
         i_obj = IntType_init [(''ctor'', cpath ''IntType''), (''doc'', doc_int)] \<rparr> ''foo:refs''
       [(''ctor'', cpath ''XrefType''), (''source'', PStr ''nocomma''), (''subof'', PStr ''int'')])"
    by (simp add: DataType_extend_def construct_def ext0_simps class_init_def)
  from C4_ctor_failure_falls_through[of tlib_empty "''foo:refs''"
      "[(''ctor'', cpath ''XrefType''), (''source'', PStr ''nocomma'')]" ext0
      "BadInfoValu ''source'' (PStr ''nocomma'')"] f1
  have a: "addType ext0 tlib_empty ''foo:refs''
       [(''ctor'', cpath ''XrefType''), (''source'', PStr ''nocomma'')]
     = (Inr False,
        tlib_empty\<lparr> pended := [(PNone, ''foo:refs'',
                      [(''ctor'', cpath ''XrefType''), (''source'', PStr ''nocomma'')])] \<rparr>)"
    by (simp add: tlib_empty_def info_get_def const_facts)
  from C4_ctor_failure_falls_through[of lib_int "''foo:refs''"
      "[(''ctor'', cpath ''XrefType''), (''source'', PStr ''nocomma''), (''subof'', PStr ''int'')]"
      ext0 "BadInfoValu ''source'' (PStr ''nocomma'')"] f2 f3
  have b: "fst (addType ext0 lib_int ''foo:refs''
            [(''ctor'', cpath ''XrefType''), (''source'', PStr ''nocomma''),
             (''subof'', PStr ''int'')]) = Inr True
   \<and> types (snd (addType ext0 lib_int ''foo:refs''
            [(''ctor'', cpath ''XrefType''), (''source'', PStr ''nocomma''),
             (''subof'', PStr ''int'')])) ''foo:refs'' \<noteq> None"
    by (simp add: lib_int_eq info_get_def const_facts isl_def) (metis sum.collapse(2) f3)
  from f1 a b show ?thesis by simp
qed

end
